theory Spec2Isabelle
  imports Main "HOL-Library.Word"
begin

section \<open>Values of the host language\<close>

text \<open>
  A JavaScript string is a sequence of 16-bit code units; \<open>length\<close>, \<open>slice\<close> and
  \<open>===\<close> all work on code units. An instant (a valid \<open>Date\<close>) is its time value, the
  milliseconds since the epoch.
\<close>

type_synonym jsstring = "16 word list"

type_synonym instant = int

definition js :: "string \<Rightarrow> jsstring" where
  "js s = map (\<lambda>c. word_of_nat (of_char c)) s"

text \<open>The code units \<open>String.prototype.trim\<close> strips: WhiteSpace and LineTerminator.\<close>

definition js_whitespace :: "16 word \<Rightarrow> bool" where
  "js_whitespace c \<longleftrightarrow>
     c \<in> set [0x0009, 0x000A, 0x000B, 0x000C, 0x000D, 0x0020, 0x00A0, 0x1680,
              0x2000, 0x2001, 0x2002, 0x2003, 0x2004, 0x2005, 0x2006, 0x2007,
              0x2008, 0x2009, 0x200A, 0x2028, 0x2029, 0x202F, 0x205F, 0x3000, 0xFEFF]"

definition trim :: "jsstring \<Rightarrow> jsstring" where
  "trim s = rev (dropWhile js_whitespace (rev (dropWhile js_whitespace s)))"

text \<open>\<open>s.slice(0, n)\<close> for a non-negative \<open>n\<close>.\<close>

definition slice0 :: "nat \<Rightarrow> jsstring \<Rightarrow> jsstring" where
  "slice0 n s = take n s"

subsection \<open>The ISO text of an instant\<close>

text \<open>
  \<open>Date.prototype.toISOString\<close> (which \<open>JSON.stringify\<close> calls through \<open>toJSON\<close>) and the
  reading of such a text by \<open>new Date(text)\<close>. Days are counted from 1970-01-01 in the
  proleptic Gregorian calendar; the year of the computation starts on the first of March.
  The text is \<open>YYYY-MM-DDTHH:mm:ss.sssZ\<close> for the years 0 to 9999 and has a sign and six
  digits of the year otherwise (the instants of the runtime, at most 8.64e15 ms from the
  epoch, fall in the years -271821 to 275760; a year of more than six digits, which the
  runtime never holds, is written out in full). A text that is not of this form makes an
  invalid \<open>Date\<close>, which is not modelled.
\<close>

definition civil_of_days :: "int \<Rightarrow> int \<times> int \<times> int" where
  "civil_of_days z =
     (let z1 = z + 719468;
          era = z1 div 146097;
          doe = z1 mod 146097;
          c = min 3 (doe div 36524);
          r1 = doe - 36524 * c;
          q = r1 div 1461;
          r2 = r1 mod 1461;
          a = min 3 (r2 div 365);
          doy = r2 - 365 * a;
          yoe = 100 * c + 4 * q + a;
          mp = (5 * doy + 2) div 153;
          d = doy - (153 * mp + 2) div 5 + 1;
          m = (if mp < 10 then mp + 3 else mp - 9);
          y = 400 * era + yoe + (if m \<le> 2 then 1 else 0)
      in (y, m, d))"

definition days_of_civil :: "int \<Rightarrow> int \<Rightarrow> int \<Rightarrow> int" where
  "days_of_civil y m d =
     (let y1 = (if m \<le> 2 then y - 1 else y);
          era = y1 div 400;
          yoe = y1 mod 400;
          mp = (if m > 2 then m - 3 else m + 9);
          doy = (153 * mp + 2) div 5 + d - 1;
          doe = yoe * 365 + yoe div 4 - yoe div 100 + doy
      in era * 146097 + doe - 719468)"

definition digit_char :: "nat \<Rightarrow> 16 word" where
  "digit_char n = word_of_nat (48 + n)"

definition digit_value :: "16 word \<Rightarrow> nat" where
  "digit_value c = unat c - 48"

text \<open>The last \<open>k\<close> decimal digits of \<open>n\<close>, and the number that a text of digits denotes.\<close>

fun pad :: "nat \<Rightarrow> nat \<Rightarrow> jsstring" where
  "pad 0 n = []"
| "pad (Suc k) n = pad k (n div 10) @ [digit_char (n mod 10)]"

definition digits_value :: "jsstring \<Rightarrow> nat" where
  "digits_value s = foldl (\<lambda>acc c. 10 * acc + digit_value c) 0 s"

definition year_text :: "int \<Rightarrow> jsstring" where
  "year_text y =
     (if 0 \<le> y \<and> y \<le> 9999 then pad 4 (nat y)
      else (if y < 0 then js ''-'' else js ''+'')
           @ pad (if \<bar>y\<bar> < 1000000 then 6 else nat \<bar>y\<bar>) (nat \<bar>y\<bar>))"

definition year_value :: "jsstring \<Rightarrow> int" where
  "year_value s =
     (case s of
        [] \<Rightarrow> 0
      | c # ds \<Rightarrow>
          if c = 0x2B then int (digits_value ds)
          else if c = 0x2D then - int (digits_value ds)
          else int (digits_value s))"

definition Date_toISOString :: "instant \<Rightarrow> jsstring" where
  "Date_toISOString t =
     (let day = t div 86400000;
          ms_in_day = nat (t mod 86400000);
          ymd = civil_of_days day
      in year_text (fst ymd) @ js ''-'' @ pad 2 (nat (fst (snd ymd)))
         @ js ''-'' @ pad 2 (nat (snd (snd ymd)))
         @ js ''T'' @ pad 2 (ms_in_day div 3600000)
         @ js '':'' @ pad 2 (ms_in_day div 60000 mod 60)
         @ js '':'' @ pad 2 (ms_in_day div 1000 mod 60)
         @ js ''.'' @ pad 3 (ms_in_day mod 1000) @ js ''Z'')"

text \<open>The last 20 code units hold the fields from the month on; what precedes is the year.\<close>

definition Date_parse :: "jsstring \<Rightarrow> instant" where
  "Date_parse isoString =
     (let n = length isoString - 20;
          rest = drop n isoString;
          field = (\<lambda>i k. int (digits_value (take k (drop i rest))))
      in days_of_civil (year_value (take n isoString)) (field 1 2) (field 4 2) * 86400000
         + field 7 2 * 3600000 + field 10 2 * 60000 + field 13 2 * 1000 + field 16 3)"

section \<open>Conversation session state (useConversations)\<close>

text \<open>
  Modelled from the spec: the declaration of \<open>Message\<close> (types/api) is not among the
  sources. By the data model of the spec a message has a role, a content, a timestamp
  that is an instant, optional sources (citation records with a chunk id, a document id, a
  text, a score and metadata that map strings to scalars) and optional expanded queries;
  the field names are the ones the rendering layer reads. In memory the timestamp of a
  message is a \<open>Date\<close> until the message has been through the store: the load effect
  revives \<open>lastUpdated\<close> only, so that afterwards the field holds the ISO text. The
  rendering layer reads either with \<open>new Date(message.timestamp)\<close>.
\<close>

datatype role = User | Assistant

datatype js_time = DateValue instant | TextValue jsstring

text \<open>A finite number, \<open>m\<close> times 2 to the power \<open>e\<close>; the hooks only carry numbers.\<close>

datatype number = Number int int

datatype scalar = StringScalar jsstring | NumberScalar number | BooleanScalar bool

record ChunkResponse =
  chunk_id :: jsstring
  document_id_c :: jsstring
  text_c :: jsstring
  score :: number
  metadata :: "(jsstring \<times> scalar) list"

record Message =
  role :: role
  content :: jsstring
  timestamp :: js_time
  sources :: "ChunkResponse list option"
  expanded_queries :: "jsstring list option"

record Conversation =
  id_c :: jsstring
  title :: jsstring
  messages :: "Message list"
  lastUpdated :: instant
  metaInformation :: "jsstring option"

text \<open>
  The state of the hook as one render sees it. Every operation below is run on the latest
  committed state; the queued functional updates of one operation are applied in the order
  in which they were enqueued.
\<close>

record conv_state =
  conversations :: "Conversation list"
  currentConversationId :: "jsstring option"
  isInitialized :: bool

definition newConversation :: "jsstring \<Rightarrow> instant \<Rightarrow> Conversation" where
  "newConversation uuid now =
     \<lparr>id_c = uuid, title = js ''New Chat'', messages = [], lastUpdated = now,
      metaInformation = Some []\<rparr>"

text \<open>\<open>uuid\<close> is what \<open>uuidv4()\<close> returns and \<open>now\<close> what \<open>new Date()\<close> reads.\<close>

definition createNewConversation ::
  "jsstring \<Rightarrow> instant \<Rightarrow> conv_state \<Rightarrow> jsstring \<times> conv_state" where
  "createNewConversation uuid now s =
     (uuid, s\<lparr>conversations := newConversation uuid now # conversations s,
               currentConversationId := Some uuid\<rparr>)"

definition setCurrentConversationId :: "jsstring option \<Rightarrow> conv_state \<Rightarrow> conv_state" where
  "setCurrentConversationId i s = s\<lparr>currentConversationId := i\<rparr>"

text \<open>The updater that \<open>updateConversationTitle\<close> hands to \<open>setConversations\<close>.\<close>

definition title_updater :: "jsstring \<Rightarrow> jsstring \<Rightarrow> Conversation list \<Rightarrow> Conversation list" where
  "title_updater conversationId t prev =
     map (\<lambda>conv. if id_c conv = conversationId
                  then conv\<lparr>title := (if trim t \<noteq> [] then t else js ''New Chat'')\<rparr>
                  else conv) prev"

definition updateConversationTitle :: "jsstring \<Rightarrow> jsstring \<Rightarrow> conv_state \<Rightarrow> conv_state" where
  "updateConversationTitle conversationId t s =
     s\<lparr>conversations := title_updater conversationId t (conversations s)\<rparr>"

definition updateConversationMetaInformation ::
  "jsstring \<Rightarrow> jsstring \<Rightarrow> conv_state \<Rightarrow> conv_state" where
  "updateConversationMetaInformation conversationId meta s =
     s\<lparr>conversations :=
         map (\<lambda>conv. if id_c conv = conversationId
                      then conv\<lparr>metaInformation := Some meta\<rparr> else conv)
           (conversations s)\<rparr>"

definition deleteConversation ::
  "jsstring \<Rightarrow> jsstring \<Rightarrow> instant \<Rightarrow> conv_state \<Rightarrow> conv_state" where
  "deleteConversation conversationId uuid now s =
     (let s1 = s\<lparr>conversations := filter (\<lambda>conv. id_c conv \<noteq> conversationId) (conversations s)\<rparr>
      in if currentConversationId s = Some conversationId
         then (let remaining = filter (\<lambda>conv. id_c conv \<noteq> conversationId) (conversations s)
               in if length remaining > 0
                  then s1\<lparr>currentConversationId := Some (id_c (hd remaining))\<rparr>
                  else snd (createNewConversation uuid now s1))
         else s1)"

text \<open>
  \<open>addMessageToConversation\<close>: the updater handed to \<open>setConversations\<close> appends the
  message. While it runs, for each matching conversation that had no message, and if the
  role of the message is \<open>user\<close>, it calls \<open>updateConversationTitle\<close>, which hands a title
  updater to \<open>setConversations\<close> in turn. The entry the updater itself returns keeps the old
  title (\<open>...conv\<close>).
\<close>

definition derivedTitle :: "Message \<Rightarrow> jsstring" where
  "derivedTitle message =
     slice0 30 (content message) @ (if length (content message) > 30 then js ''...'' else [])"

definition message_updater :: "jsstring \<Rightarrow> Message \<Rightarrow> instant \<Rightarrow> Conversation list \<Rightarrow> Conversation list" where
  "message_updater conversationId message now prev =
     map (\<lambda>conv. if id_c conv = conversationId
                  then conv\<lparr>messages := messages conv @ [message], lastUpdated := now\<rparr>
                  else conv) prev"

text \<open>The calls of \<open>updateConversationTitle\<close> that the updater makes when it runs on \<open>prev\<close>.\<close>

definition queued_title_updates ::
  "jsstring \<Rightarrow> Message \<Rightarrow> Conversation list \<Rightarrow> (jsstring \<times> jsstring) list" where
  "queued_title_updates conversationId message prev =
     map (\<lambda>conv. (id_c conv, derivedTitle message))
       (filter (\<lambda>conv. id_c conv = conversationId \<and> length (messages conv) = 0 \<and> role message = User)
          prev)"

text \<open>
  The queue of state updates of React. An update is enqueued with its updater and, when
  the component had no update pending at the call, with the state that React has computed
  from the current state by running the updater at once. When the queue is processed, an
  update that carries such a state yields that state, and any other update yields its
  updater applied to the state reached so far.
\<close>

record state_update =
  eagerState :: "Conversation list option"
  action :: "Conversation list \<Rightarrow> Conversation list"

definition process_updates :: "Conversation list \<Rightarrow> state_update list \<Rightarrow> Conversation list" where
  "process_updates current queue =
     foldl (\<lambda>state u. case eagerState u of Some eager \<Rightarrow> eager | None \<Rightarrow> action u state)
       current queue"

text \<open>
  When \<open>addMessageToConversation\<close> is called, either the component has an update pending
  (\<open>Deferred\<close>): the updater is enqueued and runs when the queue is processed, and the
  title updates it asks for are enqueued behind it. Or the component has none (\<open>Eager\<close>):
  React runs the updater at the call, before it enqueues the update; the first title
  update that the running updater asks for is therefore computed and enqueued first, the
  others follow, and the update of the message is enqueued last, with the state computed
  from the current one.
\<close>

datatype schedule = Eager | Deferred

fun enqueued_updates ::
  "schedule \<Rightarrow> jsstring \<Rightarrow> Message \<Rightarrow> instant \<Rightarrow> Conversation list \<Rightarrow> state_update list" where
  "enqueued_updates Deferred conversationId message now current =
     \<lparr>eagerState = None, action = message_updater conversationId message now\<rparr>
       # map (\<lambda>(i, t). \<lparr>eagerState = None, action = title_updater i t\<rparr>)
           (queued_title_updates conversationId message current)"
| "enqueued_updates Eager conversationId message now current =
     (case queued_title_updates conversationId message current of
        [] \<Rightarrow> []
      | (i, t) # rest \<Rightarrow>
          \<lparr>eagerState = Some (title_updater i t current), action = title_updater i t\<rparr>
            # map (\<lambda>(i, t). \<lparr>eagerState = None, action = title_updater i t\<rparr>) rest)
     @ [\<lparr>eagerState = Some (message_updater conversationId message now current),
         action = message_updater conversationId message now\<rparr>]"

definition addMessageToConversation ::
  "schedule \<Rightarrow> jsstring \<Rightarrow> Message \<Rightarrow> instant \<Rightarrow> conv_state \<Rightarrow> conv_state" where
  "addMessageToConversation sched conversationId message now s =
     s\<lparr>conversations :=
         process_updates (conversations s)
           (enqueued_updates sched conversationId message now (conversations s))\<rparr>"

text \<open>\<open>confirmed\<close> is the answer of \<open>window.confirm\<close>.\<close>

definition clearConversations :: "bool \<Rightarrow> jsstring \<Rightarrow> instant \<Rightarrow> conv_state \<Rightarrow> conv_state" where
  "clearConversations confirmed uuid now s =
     (if confirmed then snd (createNewConversation uuid now (s\<lparr>conversations := []\<rparr>)) else s)"

definition clearCurrentConversation :: "bool \<Rightarrow> instant \<Rightarrow> conv_state \<Rightarrow> conv_state" where
  "clearCurrentConversation confirmed now s =
     (if confirmed
      then s\<lparr>conversations :=
               map (\<lambda>conv. if Some (id_c conv) = currentConversationId s
                            then conv\<lparr>messages := [], lastUpdated := now, title := js ''New Chat''\<rparr>
                            else conv)
                 (conversations s)\<rparr>
      else s)"

definition currentConversation :: "conv_state \<Rightarrow> Conversation option" where
  "currentConversation s = find (\<lambda>conv. Some (id_c conv) = currentConversationId s) (conversations s)"

subsection \<open>Persistence and initialization\<close>

text \<open>
  The value held under the key \<open>conversations\<close> of the durable store is the JSON text of
  the array; it is represented by the array it denotes. An entry is a conversation as
  \<open>JSON.stringify\<close> writes it: \<open>Date.prototype.toJSON\<close> turns \<open>lastUpdated\<close> into its
  ISO text, and so the timestamp of a message that is a \<open>Date\<close>; an undefined member is
  left out; everything else is plain data.
  \<open>toISOString\<close> and \<open>parseDate\<close> (\<open>new Date(text)\<close>) belong to the runtime and are
  parameters; the runtime's own are \<open>Date_toISOString\<close> and \<open>Date_parse\<close>.
\<close>

record StoredMessage =
  sm_role :: role
  sm_content :: jsstring
  sm_timestamp :: jsstring
  sm_sources :: "ChunkResponse list option"
  sm_expanded_queries :: "jsstring list option"

record StoredConversation =
  s_id :: jsstring
  s_title :: jsstring
  s_messages :: "StoredMessage list"
  s_lastUpdated :: jsstring
  s_metaInformation :: "jsstring option"

text \<open>What \<open>JSON.stringify\<close> writes for a timestamp: the ISO text of a \<open>Date\<close>, a text as
  it is.\<close>

definition timestamp_text :: "(instant \<Rightarrow> jsstring) \<Rightarrow> js_time \<Rightarrow> jsstring" where
  "timestamp_text toISOString v = (case v of DateValue t \<Rightarrow> toISOString t | TextValue s \<Rightarrow> s)"

definition stringify_message :: "(instant \<Rightarrow> jsstring) \<Rightarrow> Message \<Rightarrow> StoredMessage" where
  "stringify_message toISOString m =
     \<lparr>sm_role = role m, sm_content = content m,
      sm_timestamp = timestamp_text toISOString (timestamp m),
      sm_sources = sources m, sm_expanded_queries = expanded_queries m\<rparr>"

definition stringify_conversation :: "(instant \<Rightarrow> jsstring) \<Rightarrow> Conversation \<Rightarrow> StoredConversation" where
  "stringify_conversation toISOString conv =
     \<lparr>s_id = id_c conv, s_title = title conv,
      s_messages = map (stringify_message toISOString) (messages conv),
      s_lastUpdated = toISOString (lastUpdated conv),
      s_metaInformation = metaInformation conv\<rparr>"

text \<open>A message as \<open>JSON.parse\<close> delivers it: the timestamp stays the text.\<close>

definition parsed_message :: "StoredMessage \<Rightarrow> Message" where
  "parsed_message m =
     \<lparr>role = sm_role m, content = sm_content m, timestamp = TextValue (sm_timestamp m),
      sources = sm_sources m, expanded_queries = sm_expanded_queries m\<rparr>"

text \<open>\<open>{...conv, lastUpdated: new Date(conv.lastUpdated)}\<close>\<close>

definition revive_conversation :: "(jsstring \<Rightarrow> instant) \<Rightarrow> StoredConversation \<Rightarrow> Conversation" where
  "revive_conversation parseDate conv =
     \<lparr>id_c = s_id conv, title = s_title conv, messages = map parsed_message (s_messages conv),
      lastUpdated = parseDate (s_lastUpdated conv),
      metaInformation = s_metaInformation conv\<rparr>"

definition initial_state :: conv_state where
  "initial_state = \<lparr>conversations = [], currentConversationId = None, isInitialized = False\<rparr>"

text \<open>The load effect; \<open>saved\<close> is what \<open>localStorage.getItem\<close> returns.\<close>

definition load_effect ::
  "(jsstring \<Rightarrow> instant) \<Rightarrow> StoredConversation list option \<Rightarrow> jsstring \<Rightarrow> instant
     \<Rightarrow> conv_state \<Rightarrow> conv_state" where
  "load_effect parseDate saved uuid now s =
     (if isInitialized s then s
      else (case saved of
              Some parsed \<Rightarrow>
                if length parsed > 0
                then s\<lparr>conversations := map (revive_conversation parseDate) parsed,
                       currentConversationId := Some (s_id (hd parsed))\<rparr>
                else snd (createNewConversation uuid now s)
            | None \<Rightarrow> snd (createNewConversation uuid now s))
           \<lparr>isInitialized := True\<rparr>)"

text \<open>The save effect; the result is the item held by the store afterwards.\<close>

definition save_effect ::
  "(instant \<Rightarrow> jsstring) \<Rightarrow> conv_state \<Rightarrow> StoredConversation list option
     \<Rightarrow> StoredConversation list option" where
  "save_effect toISOString s store =
     (if \<not> isInitialized s then store
      else Some (map (stringify_conversation toISOString) (conversations s)))"

subsection \<open>Runs of the session manager\<close>

datatype conv_op =
    Create jsstring instant
  | Select "jsstring option"
  | UpdateTitle jsstring jsstring
  | UpdateMeta jsstring jsstring
  | Delete jsstring jsstring instant
  | AddMessage schedule jsstring Message instant
  | ClearAll bool jsstring instant
  | ClearCurrent bool instant

fun step :: "conv_state \<Rightarrow> conv_op \<Rightarrow> conv_state" where
  "step s (Create uuid now) = snd (createNewConversation uuid now s)"
| "step s (Select i) = setCurrentConversationId i s"
| "step s (UpdateTitle i t) = updateConversationTitle i t s"
| "step s (UpdateMeta i m) = updateConversationMetaInformation i m s"
| "step s (Delete i uuid now) = deleteConversation i uuid now s"
| "step s (AddMessage sched i m now) = addMessageToConversation sched i m now s"
| "step s (ClearAll confirmed uuid now) = clearConversations confirmed uuid now s"
| "step s (ClearCurrent confirmed now) = clearCurrentConversation confirmed now s"

fun run :: "conv_state \<Rightarrow> conv_op list \<Rightarrow> conv_state" where
  "run s [] = s"
| "run s (op # ops) = run (step s op) ops"

text \<open>The caller's obligation of \<open>selectConversation\<close>: the id is one of the collection.\<close>

fun known_selection :: "conv_state \<Rightarrow> conv_op \<Rightarrow> bool" where
  "known_selection s (Select i) =
     (case i of None \<Rightarrow> False | Some j \<Rightarrow> j \<in> set (map id_c (conversations s)))"
| "known_selection s _ = True"

fun known_selections :: "conv_state \<Rightarrow> conv_op list \<Rightarrow> bool" where
  "known_selections s [] = True"
| "known_selections s (op # ops) = (known_selection s op \<and> known_selections (step s op) ops)"

definition current_valid :: "conv_state \<Rightarrow> bool" where
  "current_valid s \<longleftrightarrow>
     conversations s \<noteq> [] \<and>
     (case currentConversationId s of
        None \<Rightarrow> False
      | Some i \<Rightarrow> i \<in> set (map id_c (conversations s)))"


section \<open>The document service as the hooks see it\<close>

text \<open>
  What an awaited \<open>fetch\<close> followed by \<open>response.json()\<close> can yield: the promise of
  \<open>fetch\<close> rejects with a thrown value, or a response arrives with its \<open>ok\<close> flag and a
  body whose parsing yields the data or rejects. A thrown value is an \<open>Error\<close> with its
  message, or anything else.
\<close>

datatype thrown = ErrorObject jsstring | OtherValue

datatype 'a fetch_result = Rejected thrown | Response bool "thrown + 'a"

record File =
  name_f :: jsstring
  size_f :: nat

datatype DocumentCategory = General | Technical | Business | Research | Other

datatype http_request =
    POST jsstring File DocumentCategory
  | DELETE jsstring
  | GET jsstring

section \<open>Upload lifecycle (useFileUpload)\<close>

datatype ProcessingStatus = Pending | Processing | Completed | Failed

record UploadedFile =
  id_u :: jsstring
  name_u :: jsstring
  size_u :: nat
  uploadDate :: instant
  success :: bool
  category :: DocumentCategory
  processingStatus :: ProcessingStatus
  documentId :: "jsstring option"

definition UPLOAD_URL :: jsstring where
  "UPLOAD_URL = js ''http://localhost:8000/documents/upload''"

definition DELETE_URL :: jsstring where
  "DELETE_URL = js ''http://localhost:8000/documents''"

text \<open>
  A pending \<open>setTimeout\<close>: its delay and the id its callback has captured. The log keeps,
  in order, the requests issued and the ids of the records inserted by an upload.
\<close>

record timer =
  delay :: nat
  newFileId :: jsstring

datatype event = Sent http_request | Inserted jsstring

record upload_state =
  uploadedFiles :: "UploadedFile list"
  isUploading :: bool
  timers :: "timer list"
  log :: "event list"

text \<open>
  What the environment answers while one file is uploaded: the outcome of the request,
  the value of \<open>uuidv4()\<close> and of \<open>new Date()\<close>. The data of a parsed body is its member
  \<open>document_id\<close> (undefined when it has none), which is what the hook reads of a body
  that is not \<open>null\<close>; the body \<open>null\<close> is the subject of \<open>ok_branch\<close> below.
\<close>

record upload_env =
  fetched :: "jsstring option fetch_result"
  uuidv4 :: jsstring
  date_now :: instant

definition failed_record :: "File \<Rightarrow> DocumentCategory \<Rightarrow> upload_env \<Rightarrow> UploadedFile" where
  "failed_record file cat env =
     \<lparr>id_u = uuidv4 env, name_u = name_f file, size_u = size_f file, uploadDate = date_now env,
      success = False, category = cat, processingStatus = Failed, documentId = None\<rparr>"

definition processing_record ::
  "File \<Rightarrow> DocumentCategory \<Rightarrow> upload_env \<Rightarrow> jsstring option \<Rightarrow> UploadedFile" where
  "processing_record file cat env document_id =
     \<lparr>id_u = uuidv4 env, name_u = name_f file, size_u = size_f file, uploadDate = date_now env,
      success = True, category = cat, processingStatus = Processing, documentId = document_id\<rparr>"

definition insert_record :: "UploadedFile \<Rightarrow> upload_state \<Rightarrow> upload_state" where
  "insert_record r s =
     s\<lparr>uploadedFiles := r # uploadedFiles s, log := log s @ [Inserted (id_u r)]\<rparr>"

text \<open>
  The updater that the success branch hands to \<open>setUploadedFiles\<close>, on any parsed body:
  \<open>null\<close>, or another value with its member \<open>document_id\<close>. The updater reads
  \<open>data.document_id\<close> when React runs it, which is after the call of \<open>setUploadedFiles\<close>
  has returned inside the \<open>try\<close> block; on \<open>null\<close> the read throws, and no new state comes
  about.
\<close>

datatype upload_data = NullData | Data "jsstring option"

definition null_member_error :: thrown where
  "null_member_error = ErrorObject (js ''Cannot read properties of null'')"

definition processing_updater ::
  "File \<Rightarrow> DocumentCategory \<Rightarrow> jsstring \<Rightarrow> instant \<Rightarrow> upload_data
     \<Rightarrow> UploadedFile list \<Rightarrow> thrown + UploadedFile list" where
  "processing_updater file cat fileId now data prev =
     (case data of
        NullData \<Rightarrow> Inl null_member_error
      | Data document_id \<Rightarrow>
          Inr (\<lparr>id_u = fileId, name_u = name_f file, size_u = size_f file, uploadDate = now,
                success = True, category = cat, processingStatus = Processing,
                documentId = document_id\<rparr> # prev))"

text \<open>
  The branch \<open>if (response.ok)\<close> on any parsed body: the call of \<open>setUploadedFiles\<close>
  returns, the timer is scheduled, and React runs the updater in a render. The result is
  the state of the hook and what that render throws, if it throws: then the collection
  is the one before, and the timer is pending all the same.
\<close>

definition ok_branch ::
  "File \<Rightarrow> DocumentCategory \<Rightarrow> jsstring \<Rightarrow> instant \<Rightarrow> upload_data \<Rightarrow> upload_state
     \<Rightarrow> upload_state \<times> thrown option" where
  "ok_branch file cat fileId now data s =
     (let s1 = s\<lparr>timers := timers s @ [\<lparr>delay = 3000, newFileId = fileId\<rparr>]\<rparr>
      in case processing_updater file cat fileId now data (uploadedFiles s) of
           Inl e \<Rightarrow> (s1, Some e)
         | Inr inserted \<Rightarrow>
             (s1\<lparr>uploadedFiles := inserted, log := log s @ [Inserted fileId]\<rparr>, None))"

text \<open>The body of the \<open>for\<close> loop, the \<open>try\<close> block and its \<open>catch\<close>, for a parsed body
  that is not \<open>null\<close>: then no render throws, and the branch \<open>if (response.ok)\<close> is
  \<open>ok_branch\<close> on that body.\<close>

definition upload_one :: "DocumentCategory \<Rightarrow> File \<times> upload_env \<Rightarrow> upload_state \<Rightarrow> upload_state" where
  "upload_one cat fe s =
     (let file = fst fe; env = snd fe;
          s1 = s\<lparr>log := log s @ [Sent (POST UPLOAD_URL file cat)]\<rparr>
      in case fetched env of
           Rejected e \<Rightarrow> insert_record (failed_record file cat env) s1
         | Response ok body \<Rightarrow>
             (case body of
                Inl e \<Rightarrow> insert_record (failed_record file cat env) s1
              | Inr document_id \<Rightarrow>
                  if ok
                  then (insert_record (processing_record file cat env document_id) s1)
                         \<lparr>timers := timers s1 @ [\<lparr>delay = 3000, newFileId = uuidv4 env\<rparr>]\<rparr>
                  else insert_record (failed_record file cat env) s1))"

text \<open>
  \<open>uploadFiles\<close>; a null file list returns at once. The promise it returns is modelled
  by its outcome: \<open>Inl\<close> a thrown value, \<open>Inr\<close> the state in which it resolves. The call
  is taken to run from the first file to the last with no other operation and no timer
  in between.
\<close>

definition uploadFiles ::
  "(File \<times> upload_env) list option \<Rightarrow> DocumentCategory \<Rightarrow> upload_state \<Rightarrow> thrown + upload_state" where
  "uploadFiles files cat s =
     (case files of
        None \<Rightarrow> Inr s
      | Some fileArray \<Rightarrow>
          Inr ((foldl (\<lambda>s' fe. upload_one cat fe s') (s\<lparr>isUploading := True\<rparr>) fileArray)
                 \<lparr>isUploading := False\<rparr>))"

text \<open>The callback of the timer, as an updater of the collection, and the firing of the
  \<open>k\<close>-th pending timer.\<close>

definition completion_callback :: "jsstring \<Rightarrow> UploadedFile list \<Rightarrow> UploadedFile list" where
  "completion_callback fileId prev =
     map (\<lambda>f. if id_u f = fileId then f\<lparr>processingStatus := Completed\<rparr> else f) prev"

definition fire_timer :: "nat \<Rightarrow> upload_state \<Rightarrow> upload_state" where
  "fire_timer k s =
     (if k < length (timers s)
      then s\<lparr>uploadedFiles := completion_callback (newFileId (timers s ! k)) (uploadedFiles s),
             timers := take k (timers s) @ drop (Suc k) (timers s)\<rparr>
      else s)"

definition deleteFile :: "jsstring \<Rightarrow> upload_state \<Rightarrow> upload_state" where
  "deleteFile fileId s =
     s\<lparr>uploadedFiles := filter (\<lambda>file. id_u file \<noteq> fileId) (uploadedFiles s)\<rparr>"

text \<open>\<open>!file.documentId\<close> holds for an undefined and for an empty \<open>documentId\<close>.\<close>

definition deleteFileFromKnowledgeBase ::
  "jsstring \<Rightarrow> unit fetch_result \<Rightarrow> upload_state \<Rightarrow> upload_state" where
  "deleteFileFromKnowledgeBase fileId outcome s =
     (case find (\<lambda>f. id_u f = fileId) (uploadedFiles s) of
        None \<Rightarrow> deleteFile fileId s
      | Some file \<Rightarrow>
          (case documentId file of
             None \<Rightarrow> deleteFile fileId s
           | Some d \<Rightarrow>
               if d = [] then deleteFile fileId s
               else (let s1 = s\<lparr>log := log s @ [Sent (DELETE (DELETE_URL @ js ''/'' @ d))]\<rparr>
                     in case outcome of
                          Rejected e \<Rightarrow> s1
                        | Response ok body \<Rightarrow> if ok then deleteFile fileId s1 else s1)))"

definition updateFileCategory :: "jsstring \<Rightarrow> DocumentCategory \<Rightarrow> upload_state \<Rightarrow> upload_state" where
  "updateFileCategory fileId newCategory s =
     s\<lparr>uploadedFiles :=
         map (\<lambda>file. if id_u file = fileId then file\<lparr>category := newCategory\<rparr> else file)
           (uploadedFiles s)\<rparr>"

text \<open>\<open>None\<close> stands for the category \<open>'all'\<close>.\<close>

definition getFilesByCategory :: "DocumentCategory option \<Rightarrow> upload_state \<Rightarrow> UploadedFile list" where
  "getFilesByCategory cat s =
     (case cat of
        None \<Rightarrow> uploadedFiles s
      | Some c \<Rightarrow> filter (\<lambda>file. category file = c) (uploadedFiles s))"

section \<open>Knowledge-base listing (useFileList)\<close>

record FileEntry =
  id_e :: jsstring
  name_e :: jsstring

record FileListResponse =
  files_r :: "FileEntry list"
  total_files :: int

record KnowledgeBaseFile =
  id_k :: jsstring
  name_k :: jsstring
  originalName :: jsstring
  dateAdded :: "jsstring option"

record list_state =
  files :: "KnowledgeBaseFile list"
  isLoading :: bool
  error :: "jsstring option"

definition processFileEntry :: "(instant \<Rightarrow> jsstring) \<Rightarrow> instant \<Rightarrow> FileEntry \<Rightarrow> KnowledgeBaseFile" where
  "processFileEntry toISOString now entry =
     \<lparr>id_k = id_e entry, name_k = name_e entry, originalName = name_e entry,
      dateAdded = Some (toISOString now)\<rparr>"

text \<open>The \<open>try\<close> block of \<open>fetchFiles\<close>: the data, or what it throws.\<close>

definition fetch_listing :: "FileListResponse fetch_result \<Rightarrow> thrown + FileListResponse" where
  "fetch_listing outcome =
     (case outcome of
        Rejected e \<Rightarrow> Inl e
      | Response ok body \<Rightarrow>
          if \<not> ok then Inl (ErrorObject (js ''Failed to fetch files'')) else body)"

definition fetchFiles ::
  "(instant \<Rightarrow> jsstring) \<Rightarrow> instant \<Rightarrow> FileListResponse fetch_result \<Rightarrow> list_state \<Rightarrow> list_state" where
  "fetchFiles toISOString now outcome s =
     (case fetch_listing outcome of
        Inr data \<Rightarrow>
          s\<lparr>files := map (processFileEntry toISOString now) (files_r data), error := None\<rparr>
      | Inl err \<Rightarrow>
          s\<lparr>error := Some (case err of ErrorObject m \<Rightarrow> m | OtherValue \<Rightarrow> js ''An error occurred''),
            files := []\<rparr>)
     \<lparr>isLoading := False\<rparr>"


section \<open>Auxiliary notions used in the statements\<close>

text \<open>The error paths of one upload: the \<open>catch\<close> block (the request or the parsing of
  the body throws) and the \<open>else\<close> branch (the response is not ok).\<close>

definition upload_fails :: "upload_env \<Rightarrow> bool" where
  "upload_fails env =
     (case fetched env of
        Rejected e \<Rightarrow> True
      | Response ok body \<Rightarrow> (case body of Inl e \<Rightarrow> True | Inr d \<Rightarrow> \<not> ok))"

text \<open>The record that the upload of one file inserts.\<close>

definition record_of :: "DocumentCategory \<Rightarrow> File \<times> upload_env \<Rightarrow> UploadedFile" where
  "record_of cat fe =
     (case fetched (snd fe) of
        Response True (Inr d) \<Rightarrow> processing_record (fst fe) cat (snd fe) d
      | _ \<Rightarrow> failed_record (fst fe) cat (snd fe))"

text \<open>Synchronous operations on the collection that may run while a timer is pending.\<close>

datatype local_op = DeleteFile jsstring | UpdateFileCategory jsstring DocumentCategory

fun apply_local :: "upload_state \<Rightarrow> local_op \<Rightarrow> upload_state" where
  "apply_local s (DeleteFile i) = deleteFile i s"
| "apply_local s (UpdateFileCategory i c) = updateFileCategory i c s"

text \<open>The test \<open>file.documentId\<close> of the source: the field is defined and not the empty
  string. This is what it means below for a record to have a \<open>documentId\<close>.\<close>

definition truthy :: "jsstring option \<Rightarrow> bool" where
  "truthy v = (case v of None \<Rightarrow> False | Some x \<Rightarrow> x \<noteq> [])"

text \<open>The remote call reports success: a response arrived and it is ok.\<close>

definition reports_success :: "'a fetch_result \<Rightarrow> bool" where
  "reports_success outcome = (case outcome of Rejected e \<Rightarrow> False | Response ok body \<Rightarrow> ok)"

text \<open>A message after a reload: its timestamp is the text that was stored; and the
  instant that the rendering layer reads from a timestamp with \<open>new Date\<close>.\<close>

definition reloaded_message :: "Message \<Rightarrow> Message" where
  "reloaded_message m = m\<lparr>timestamp := TextValue (timestamp_text Date_toISOString (timestamp m))\<rparr>"

definition timestamp_instant :: "js_time \<Rightarrow> instant" where
  "timestamp_instant v = (case v of DateValue t \<Rightarrow> t | TextValue s \<Rightarrow> Date_parse s)"

text \<open>What a message says: its fields, with the timestamp as the instant it denotes.\<close>

definition message_meaning ::
  "Message \<Rightarrow> role \<times> jsstring \<times> instant \<times> ChunkResponse list option \<times> jsstring list option" where
  "message_meaning m =
     (role m, content m, timestamp_instant (timestamp m), sources m, expanded_queries m)"

text \<open>The session that starts on the store as the save effect of \<open>s\<close> leaves it.\<close>

definition persist_reload ::
  "conv_state \<Rightarrow> StoredConversation list option \<Rightarrow> jsstring \<Rightarrow> instant \<Rightarrow> conv_state" where
  "persist_reload s store uuid now =
     load_effect Date_parse (save_effect Date_toISOString s store) uuid now initial_state"

subsection \<open>Concrete values\<close>

definition example_conversation :: Conversation where
  "example_conversation =
     \<lparr>id_c = js ''c1'', title = js ''First'', messages = [], lastUpdated = 1000,
      metaInformation = None\<rparr>"

definition example_session :: conv_state where
  "example_session =
     \<lparr>conversations = [example_conversation], currentConversationId = Some (js ''c1''),
      isInitialized = True\<rparr>"

definition example_file :: File where
  "example_file = \<lparr>name_f = js ''report.pdf'', size_f = 2048\<rparr>"

definition rejected_env :: upload_env where
  "rejected_env =
     \<lparr>fetched = Response False (Inr None), uuidv4 = js ''u1'', date_now = 2000\<rparr>"

definition accepted_env :: upload_env where
  "accepted_env =
     \<lparr>fetched = Response True (Inr (Some (js ''d7''))), uuidv4 = js ''u2'', date_now = 3000\<rparr>"

definition no_uploads :: upload_state where
  "no_uploads = \<lparr>uploadedFiles = [], isUploading = False, timers = [], log = []\<rparr>"

definition long_question :: jsstring where
  "long_question = js ''Explain quantum tunneling in under 30 chars!''"

definition example_message :: Message where
  "example_message =
     \<lparr>role = User, content = long_question, timestamp = DateValue 1714557600000,
      sources = None, expanded_queries = None\<rparr>"

definition example_citation :: ChunkResponse where
  "example_citation =
     \<lparr>chunk_id = js ''k1'', document_id_c = js ''d7'', text_c = js ''Tunneling is ...'',
      score = Number 7 (- 3),
      metadata = [(js ''filename'', StringScalar (js ''report.pdf'')),
                  (js ''page_number'', NumberScalar (Number 3 0))]\<rparr>"

definition example_answer :: Message where
  "example_answer =
     \<lparr>role = Assistant, content = js ''A particle can cross a barrier.'',
      timestamp = DateValue 1714557601500, sources = Some [example_citation],
      expanded_queries = Some [js ''quantum tunneling'']\<rparr>"

definition greeting :: Message where
  "greeting =
     \<lparr>role = User, content = js ''hi'', timestamp = DateValue 7000, sources = None,
      expanded_queries = None\<rparr>"

text \<open>An initialized session whose conversation holds a question and its answer.\<close>

definition message_session :: conv_state where
  "message_session =
     \<lparr>conversations =
        [\<lparr>id_c = js ''c1'', title = js ''Explain quantum tunneling in u...'',
          messages = [example_message, example_answer], lastUpdated = 1714557601500,
          metaInformation = Some []\<rparr>],
      currentConversationId = Some (js ''c1''), isInitialized = True\<rparr>"

text \<open>A start with an empty store, followed by the selection of an id that no conversation
  has and the deletion of the only conversation.\<close>

definition stray_selection_run :: conv_state where
  "stray_selection_run =
     run (load_effect (\<lambda>text. 0) None (js ''c1'') 1000 initial_state)
       [Select (Some (js ''zz'')), Delete (js ''c1'') (js ''c2'') 2000]"

definition example_run :: conv_state where
  "example_run =
     run (load_effect (\<lambda>text. 0) None (js ''c1'') 1000 initial_state)
       [AddMessage Deferred (js ''c1'') example_message 1500, Create (js ''c2'') 2000,
        Select (Some (js ''c1'')), Delete (js ''c1'') (js ''c3'') 3000]"

definition two_uploads :: upload_state where
  "two_uploads =
     upload_one General (example_file, rejected_env)
       (upload_one General (example_file, accepted_env) no_uploads)"

section \<open>Properties\<close>

subsection \<open>Lists\<close>

lemma map_if_absent:
  "(\<And>x. x \<in> set xs \<Longrightarrow> \<not> P x) \<Longrightarrow> map (\<lambda>x. if P x then f x else x) xs = xs"
  by (induction xs) auto

lemma filter_absent: "(\<And>x. x \<in> set xs \<Longrightarrow> P x) \<Longrightarrow> filter P xs = xs"
  by (induction xs) auto

subsection \<open>Evaluation of string literals\<close>

lemma js_Nil [simp]: "js [] = []"
  by (simp add: js_def)

lemma js_Cons [simp]: "js (c # cs) = word_of_nat (of_char c) # js cs"
  by (simp add: js_def)

subsection \<open>Creating a conversation\<close>

text \<open>
  C7, as the code has it. \<open>createNewConversation\<close> puts the new conversation at the head
  of the collection, in front of the existing ones; its title is the placeholder
  \<open>New Chat\<close>, its message sequence is empty, its timestamp is the current instant and its
  meta information is the empty string. The new conversation becomes current, its id is
  returned, and the collection is longer by exactly one.
\<close>

theorem createNewConversation_prepends:
  "createNewConversation nid now s =
     (nid, s\<lparr>conversations :=
               \<lparr>id_c = nid, title = js ''New Chat'', messages = [], lastUpdated = now,
                metaInformation = Some []\<rparr> # conversations s,
             currentConversationId := Some nid\<rparr>)
   \<and> length (conversations (snd (createNewConversation nid now s))) = Suc (length (conversations s))
   \<and> currentConversationId (snd (createNewConversation nid now s))
       = Some (fst (createNewConversation nid now s))"
  by (simp add: createNewConversation_def newConversation_def)

text \<open>
  C7 as stated fails: after creating a conversation in a session that holds one
  conversation, the last entry of the collection is the old conversation, not the new
  one, and the title of the new one is not empty.
\<close>

theorem createNewConversation_appends_counterexample:
  "id_c (last (conversations (snd (createNewConversation (js ''c2'') 5000 example_session))))
     \<noteq> fst (createNewConversation (js ''c2'') 5000 example_session)
   \<and> id_c (hd (conversations (snd (createNewConversation (js ''c2'') 5000 example_session))))
     = fst (createNewConversation (js ''c2'') 5000 example_session)
   \<and> title (hd (conversations (snd (createNewConversation (js ''c2'') 5000 example_session)))) \<noteq> []"
  by (simp add: createNewConversation_def newConversation_def example_session_def
      example_conversation_def)


subsection \<open>Mutations keyed by an unknown id\<close>

text \<open>
  C10. A mutation keyed by an id that matches no record changes nothing:
  \<open>updateConversationTitle\<close>, \<open>updateConversationMetaInformation\<close> and
  \<open>addMessageToConversation\<close> on an id of no conversation return the session state as it
  was (no title update is enqueued either), and \<open>updateFileCategory\<close> and \<open>deleteFile\<close>
  on an id of no uploaded file return the upload state as it was.
\<close>

theorem unknown_id_is_noop:
  assumes "i \<notin> set (map id_c (conversations s))"
    and "j \<notin> set (map id_u (uploadedFiles u))"
  shows "updateConversationTitle i t s = s
       \<and> updateConversationMetaInformation i meta s = s
       \<and> addMessageToConversation sched i m now s = s
       \<and> updateFileCategory j c u = u
       \<and> deleteFile j u = u"
proof -
  have c: "\<And>conv. conv \<in> set (conversations s) \<Longrightarrow> id_c conv \<noteq> i"
    using assms(1) by auto
  have f: "\<And>file. file \<in> set (uploadedFiles u) \<Longrightarrow> id_u file \<noteq> j"
    using assms(2) by auto
  have 1: "updateConversationTitle i t s = s"
    unfolding updateConversationTitle_def title_updater_def
    using c by (simp add: map_if_absent)
  have 2: "updateConversationMetaInformation i meta s = s"
    unfolding updateConversationMetaInformation_def
    using c by (simp add: map_if_absent)
  have q: "queued_title_updates i m (conversations s) = []"
    unfolding queued_title_updates_def using c by (auto simp: filter_empty_conv)
  have mu: "message_updater i m now (conversations s) = conversations s"
    unfolding message_updater_def using c by (simp add: map_if_absent)
  have 3: "addMessageToConversation sched i m now s = s"
    by (cases sched) (simp_all add: addMessageToConversation_def q process_updates_def mu)
  have 4: "updateFileCategory j c u = u"
    unfolding updateFileCategory_def using f by (simp add: map_if_absent)
  have 5: "deleteFile j u = u"
    unfolding deleteFile_def using f by (simp add: filter_absent)
  from 1 2 3 4 5 show ?thesis by simp
qed

theorem unknown_id_is_noop_witness:
  "js ''zz'' \<notin> set (map id_c (conversations example_session))
   \<and> js ''u9'' \<notin> set (map id_u (uploadedFiles (upload_one General (example_file, accepted_env) no_uploads)))
   \<and> updateConversationTitle (js ''zz'') (js ''T'') example_session = example_session
   \<and> updateConversationMetaInformation (js ''zz'') (js ''M'') example_session = example_session
   \<and> addMessageToConversation Deferred (js ''zz'') greeting 7000 example_session = example_session
   \<and> addMessageToConversation Eager (js ''zz'') greeting 7000 example_session = example_session
   \<and> updateFileCategory (js ''u9'') Research (upload_one General (example_file, accepted_env) no_uploads)
       = upload_one General (example_file, accepted_env) no_uploads
   \<and> deleteFile (js ''u9'') (upload_one General (example_file, accepted_env) no_uploads)
       = upload_one General (example_file, accepted_env) no_uploads"
proof -
  have a: "js ''zz'' \<notin> set (map id_c (conversations example_session))"
    by (simp add: example_session_def example_conversation_def)
  have b: "js ''u9'' \<notin> set (map id_u (uploadedFiles (upload_one General (example_file, accepted_env) no_uploads)))"
    by (simp add: upload_one_def accepted_env_def insert_record_def processing_record_def
        no_uploads_def)
  from a b unknown_id_is_noop [OF a b] show ?thesis by simp
qed


subsection \<open>What one upload inserts\<close>

lemma upload_one_files: "uploadedFiles (upload_one cat fe s) = record_of cat fe # uploadedFiles s"
  by (simp add: upload_one_def record_of_def insert_record_def Let_def
      split: fetch_result.splits sum.splits bool.splits)

lemma foldl_upload_files:
  "uploadedFiles (foldl (\<lambda>s' fe. upload_one cat fe s') s fes)
     = rev (map (record_of cat) fes) @ uploadedFiles s"
  by (induction fes arbitrary: s) (simp_all add: upload_one_files)

lemma record_of_failed:
  "upload_fails env \<Longrightarrow> record_of cat (file, env) = failed_record file cat env"
  by (auto simp: upload_fails_def record_of_def split: fetch_result.splits sum.splits bool.splits)

lemma upload_one_timers_ok:
  "fetched env = Response True (Inr d) \<Longrightarrow>
   timers (upload_one cat (file, env) s) = timers s @ [\<lparr>delay = 3000, newFileId = uuidv4 env\<rparr>]"
  by (simp add: upload_one_def insert_record_def Let_def)

text \<open>
  C4. On every error path of an upload (the response is not ok, the request fails at the
  transport level, or the body cannot be parsed) the record inserted for the file has
  \<open>processingStatus = Failed\<close>, \<open>success = False\<close> and no \<open>documentId\<close>; the collection
  grows by exactly this one record and no timer is scheduled. Wherever the failing file
  stands in the file list, \<open>uploadFiles\<close> resolves (\<open>Inr\<close>): the failure is not thrown to
  the caller, the failed record is in the collection, and every file of the list has
  contributed one record.
\<close>

theorem upload_error_paths:
  assumes "upload_fails env"
  shows "(\<exists>r. uploadedFiles (upload_one cat (file, env) s) = r # uploadedFiles s
            \<and> processingStatus r = Failed \<and> success r = False \<and> documentId r = None
            \<and> id_u r = uuidv4 env \<and> name_u r = name_f file)
       \<and> length (uploadedFiles (upload_one cat (file, env) s)) = Suc (length (uploadedFiles s))
       \<and> timers (upload_one cat (file, env) s) = timers s
       \<and> (\<exists>s'. uploadFiles (Some (before @ (file, env) # after)) cat s = Inr s'
              \<and> processingStatus (uploadedFiles s' ! length after) = Failed
              \<and> success (uploadedFiles s' ! length after) = False
              \<and> documentId (uploadedFiles s' ! length after) = None
              \<and> id_u (uploadedFiles s' ! length after) = uuidv4 env
              \<and> length (uploadedFiles s')
                  = length before + Suc (length after) + length (uploadedFiles s))"
proof -
  have 1: "uploadedFiles (upload_one cat (file, env) s) = failed_record file cat env # uploadedFiles s"
    by (simp add: upload_one_files record_of_failed [OF assms])
  have 2: "timers (upload_one cat (file, env) s) = timers s"
    using assms
    by (auto simp: upload_fails_def upload_one_def insert_record_def Let_def
        split: fetch_result.splits sum.splits)
  have 3: "uploadedFiles (foldl (\<lambda>s' fe. upload_one cat fe s') (s\<lparr>isUploading := True\<rparr>)
               (before @ (file, env) # after))
       = rev (map (record_of cat) after) @ failed_record file cat env
           # rev (map (record_of cat) before) @ uploadedFiles s"
    unfolding foldl_upload_files by (simp add: record_of_failed [OF assms])
  have 4: "(rev (map (record_of cat) after) @ failed_record file cat env
             # rev (map (record_of cat) before) @ uploadedFiles s) ! length after
       = failed_record file cat env"
    by (simp add: nth_append)
  show ?thesis
    using 1 2 3 4 by (simp add: uploadFiles_def failed_record_def)
qed

theorem upload_error_paths_witness:
  "upload_fails rejected_env
   \<and> (\<exists>r. uploadedFiles (upload_one Technical (example_file, rejected_env) no_uploads)
              = r # uploadedFiles no_uploads
            \<and> processingStatus r = Failed \<and> success r = False \<and> documentId r = None
            \<and> id_u r = uuidv4 rejected_env \<and> name_u r = name_f example_file)
   \<and> length (uploadedFiles (upload_one Technical (example_file, rejected_env) no_uploads))
       = Suc (length (uploadedFiles no_uploads))
   \<and> (\<exists>s'. uploadFiles (Some [(example_file, accepted_env), (example_file, rejected_env)])
               Technical no_uploads = Inr s'
            \<and> processingStatus (uploadedFiles s' ! 0) = Failed
            \<and> success (uploadedFiles s' ! 0) = False
            \<and> documentId (uploadedFiles s' ! 0) = None
            \<and> length (uploadedFiles s') = 2 + length (uploadedFiles no_uploads))"
proof -
  have h: "upload_fails rejected_env"
    by (simp add: upload_fails_def rejected_env_def)
  from h upload_error_paths [OF h, of Technical example_file no_uploads
      "[(example_file, accepted_env)]" "[]"]
  show ?thesis
    by auto
qed

subsection \<open>The completion timer\<close>

lemma completion_callback_absent:
  "i \<notin> id_u ` set fs \<Longrightarrow> completion_callback i fs = fs"
  unfolding completion_callback_def by (rule map_if_absent) auto

lemma apply_local_timers: "timers (foldl apply_local s ops) = timers s"
proof (induction ops arbitrary: s)
  case Nil
  show ?case by simp
next
  case (Cons op ops)
  then show ?case by (cases op) (simp_all add: deleteFile_def updateFileCategory_def)
qed

lemma apply_local_ids:
  "id_u ` set (uploadedFiles (foldl apply_local s ops)) \<subseteq> id_u ` set (uploadedFiles s)"
proof (induction ops arbitrary: s)
  case Nil
  show ?case by simp
next
  case (Cons op ops)
  have "id_u ` set (uploadedFiles (apply_local s op)) \<subseteq> id_u ` set (uploadedFiles s)"
    by (cases op) (auto simp: deleteFile_def updateFileCategory_def)
  with Cons [of "apply_local s op"] show ?case by auto
qed

text \<open>
  C9. A file is uploaded successfully, so that its record is inserted and its timer is
  scheduled behind the timers already pending. Any deletions and category edits follow,
  then the new record itself is deleted, then again any deletions and category edits.
  When the timer of the upload fires in the resulting state, the collection is exactly
  what it was before the firing: the deleted record is not inserted again and no other
  record is altered.
\<close>

theorem completion_after_deletion:
  assumes "fetched env = Response True (Inr d)"
  shows "uploadedFiles
           (fire_timer (length (timers s))
              (foldl apply_local
                 (deleteFile (uuidv4 env) (foldl apply_local (upload_one cat (file, env) s) before))
                 after))
         = uploadedFiles
             (foldl apply_local
                (deleteFile (uuidv4 env) (foldl apply_local (upload_one cat (file, env) s) before))
                after)"
proof -
  let ?s1 = "upload_one cat (file, env) s"
  let ?s2 = "deleteFile (uuidv4 env) (foldl apply_local ?s1 before)"
  let ?s3 = "foldl apply_local ?s2 after"
  have t: "timers ?s3 = timers s @ [\<lparr>delay = 3000, newFileId = uuidv4 env\<rparr>]"
    by (simp add: apply_local_timers deleteFile_def upload_one_timers_ok [OF assms])
  have "uuidv4 env \<notin> id_u ` set (uploadedFiles ?s2)"
    by (auto simp: deleteFile_def)
  with apply_local_ids [of ?s2 after] have "uuidv4 env \<notin> id_u ` set (uploadedFiles ?s3)"
    by blast
  then have "completion_callback (uuidv4 env) (uploadedFiles ?s3) = uploadedFiles ?s3"
    by (rule completion_callback_absent)
  then show ?thesis
    by (simp add: fire_timer_def t)
qed

theorem completion_after_deletion_witness:
  "fetched accepted_env = Response True (Inr (Some (js ''d7'')))
   \<and> uploadedFiles
         (fire_timer (length (timers no_uploads))
            (foldl apply_local
               (deleteFile (uuidv4 accepted_env)
                  (foldl apply_local (upload_one General (example_file, accepted_env) no_uploads)
                     [UpdateFileCategory (js ''u2'') Business]))
               [DeleteFile (js ''u1'')]))
       = uploadedFiles
           (foldl apply_local
              (deleteFile (uuidv4 accepted_env)
                 (foldl apply_local (upload_one General (example_file, accepted_env) no_uploads)
                    [UpdateFileCategory (js ''u2'') Business]))
              [DeleteFile (js ''u1'')])"
proof -
  have h: "fetched accepted_env = Response True (Inr (Some (js ''d7'')))"
    by (simp add: accepted_env_def)
  from h completion_after_deletion [OF h, of no_uploads General example_file
      "[UpdateFileCategory (js ''u2'') Business]" "[DeleteFile (js ''u1'')]"]
  show ?thesis
    by blast
qed

subsection \<open>Refreshing the knowledge-base listing\<close>

text \<open>
  C6. Whatever view was held before, \<open>fetchFiles\<close> ends in a state that depends on the
  outcome of the request only. When the response is ok and its body parses, the view is
  the list of the remote entries, each with its id, its name as \<open>name\<close> and as
  \<open>originalName\<close>, and the ISO text of the instant of the fetch as \<open>dateAdded\<close>, and no
  error is held. In every other case (a response that is not ok, a body that does not
  parse, a request that fails) the view is empty and an error message is held: the fixed
  message for a response that is not ok, the message of the thrown error, or the
  fallback message for a thrown value that is no error object.
\<close>

theorem fetchFiles_outcomes:
  "fetchFiles toISOString now (Response True (Inr data)) s =
     \<lparr>files = map (\<lambda>entry. \<lparr>id_k = id_e entry, name_k = name_e entry,
                              originalName = name_e entry,
                              dateAdded = Some (toISOString now)\<rparr>) (files_r data),
      isLoading = False, error = None\<rparr>
   \<and> fetchFiles toISOString now (Response False body) s =
       \<lparr>files = [], isLoading = False, error = Some (js ''Failed to fetch files'')\<rparr>
   \<and> fetchFiles toISOString now (Response True (Inl (ErrorObject m))) s =
       \<lparr>files = [], isLoading = False, error = Some m\<rparr>
   \<and> fetchFiles toISOString now (Rejected (ErrorObject m)) s =
       \<lparr>files = [], isLoading = False, error = Some m\<rparr>
   \<and> fetchFiles toISOString now (Response True (Inl OtherValue)) s =
       \<lparr>files = [], isLoading = False, error = Some (js ''An error occurred'')\<rparr>
   \<and> fetchFiles toISOString now (Rejected OtherValue) s =
       \<lparr>files = [], isLoading = False, error = Some (js ''An error occurred'')\<rparr>"
  by (simp add: fetchFiles_def fetch_listing_def processFileEntry_def)


subsection \<open>The session is never left without a current conversation\<close>

lemma title_updater_ids [simp]: "map id_c (title_updater i t cs) = map id_c cs"
  by (simp add: title_updater_def comp_def cong: map_cong if_cong)

lemma message_updater_ids [simp]: "map id_c (message_updater i m now cs) = map id_c cs"
  by (simp add: message_updater_def comp_def cong: map_cong)

lemma queued_fold_ids [simp]:
  "map id_c (foldl (\<lambda>cs (i, t). title_updater i t cs) cs q) = map id_c cs"
  by (induction q arbitrary: cs) (simp_all add: split_def)

lemma process_deferred:
  "process_updates current (enqueued_updates Deferred i m now current)
     = foldl (\<lambda>cs (j, t). title_updater j t cs) (message_updater i m now current)
         (queued_title_updates i m current)"
  by (simp add: process_updates_def foldl_map split_def)

lemma process_eager:
  "process_updates current (enqueued_updates Eager i m now current)
     = message_updater i m now current"
  by (simp add: process_updates_def)

lemma addMessage_ids [simp]:
  "map id_c (conversations (addMessageToConversation sched i m now s))
     = map id_c (conversations s)"
  unfolding addMessageToConversation_def
  by (cases sched) (simp_all only: process_deferred process_eager, simp_all)

lemma addMessage_current [simp]:
  "currentConversationId (addMessageToConversation sched i m now s) = currentConversationId s"
  by (simp add: addMessageToConversation_def)

lemma current_valid_ids:
  assumes "current_valid s"
    and "map id_c (conversations s') = map id_c (conversations s)"
    and "currentConversationId s' = currentConversationId s"
  shows "current_valid s'"
proof -
  from assms(1) have "conversations s \<noteq> []"
    by (simp add: current_valid_def)
  with assms(2) have "conversations s' \<noteq> []"
    by (metis map_is_Nil_conv)
  then show ?thesis
    using assms(1) unfolding current_valid_def assms(2) assms(3) by simp
qed

lemma create_valid: "current_valid (snd (createNewConversation nid now s))"
  by (simp add: current_valid_def createNewConversation_def newConversation_def)

lemma delete_current:
  assumes "currentConversationId s = Some i"
  shows "conversations (deleteConversation i nid now s)
           = (if filter (\<lambda>c. id_c c \<noteq> i) (conversations s) = [] then [newConversation nid now]
              else filter (\<lambda>c. id_c c \<noteq> i) (conversations s))"
    and "currentConversationId (deleteConversation i nid now s)
           = Some (if filter (\<lambda>c. id_c c \<noteq> i) (conversations s) = [] then nid
                   else id_c (hd (filter (\<lambda>c. id_c c \<noteq> i) (conversations s))))"
  using assms by (simp_all add: deleteConversation_def createNewConversation_def Let_def)

lemma delete_valid:
  assumes "current_valid s"
  shows "current_valid (deleteConversation i nid now s)"
proof (cases "currentConversationId s = Some i")
  case True
  show ?thesis
  proof (cases "filter (\<lambda>c. id_c c \<noteq> i) (conversations s) = []")
    case e: True
    with True show ?thesis
      by (simp add: current_valid_def delete_current newConversation_def)
  next
    case ne: False
    then have "hd (filter (\<lambda>c. id_c c \<noteq> i) (conversations s))
                 \<in> set (filter (\<lambda>c. id_c c \<noteq> i) (conversations s))"
      by (rule hd_in_set)
    with True ne show ?thesis
      unfolding current_valid_def delete_current [OF True] by (simp del: set_filter)
  qed
next
  case False
  from assms obtain j where j: "currentConversationId s = Some j"
      "j \<in> set (map id_c (conversations s))"
    unfolding current_valid_def by (auto split: option.splits)
  with False have "j \<noteq> i" by simp
  with j show ?thesis
    using False
    by (auto simp: current_valid_def deleteConversation_def Let_def filter_empty_conv)
qed

lemma step_valid:
  assumes "current_valid s" and "known_selection s op"
  shows "current_valid (step s op)"
proof (cases op)
  case (Create nid now)
  then show ?thesis by (simp add: create_valid)
next
  case (Select i)
  with assms show ?thesis
    by (auto simp: current_valid_def setCurrentConversationId_def split: option.splits)
next
  case (UpdateTitle i t)
  show ?thesis unfolding UpdateTitle step.simps
    by (rule current_valid_ids [OF assms(1)]) (simp_all add: updateConversationTitle_def)
next
  case (UpdateMeta i m)
  show ?thesis unfolding UpdateMeta step.simps
    by (rule current_valid_ids [OF assms(1)])
      (simp_all add: updateConversationMetaInformation_def comp_def cong: map_cong if_cong)
next
  case (Delete i nid now)
  with assms show ?thesis by (simp add: delete_valid)
next
  case (AddMessage sched i m now)
  show ?thesis unfolding AddMessage step.simps
    by (rule current_valid_ids [OF assms(1)]) simp_all
next
  case (ClearAll confirmed nid now)
  with assms show ?thesis by (simp add: clearConversations_def create_valid)
next
  case (ClearCurrent confirmed now)
  show ?thesis
  proof (cases confirmed)
    case True
    show ?thesis unfolding ClearCurrent step.simps
      by (rule current_valid_ids [OF assms(1)])
        (simp_all add: clearCurrentConversation_def True comp_def cong: map_cong if_cong)
  next
    case False
    with assms ClearCurrent show ?thesis by (simp add: clearCurrentConversation_def)
  qed
qed

lemma run_valid:
  "current_valid s \<Longrightarrow> known_selections s ops \<Longrightarrow> current_valid (run s ops)"
  by (induction ops arbitrary: s) (simp_all add: step_valid)

lemma load_valid: "current_valid (load_effect parseDate saved nid now initial_state)"
proof (cases saved)
  case None
  then show ?thesis
    by (simp add: load_effect_def initial_state_def current_valid_def createNewConversation_def
        newConversation_def)
next
  case (Some parsed)
  then show ?thesis
    by (cases parsed)
      (simp_all add: load_effect_def initial_state_def current_valid_def
        createNewConversation_def newConversation_def revive_conversation_def)
qed

text \<open>
  C1, as the code has it. Let \<open>s\<close> be the state after the load effect has run (on any
  content of the store) and any operations of the hook have followed, where every call of
  \<open>setCurrentConversationId\<close> was given the id of a conversation of the collection. Then the
  collection of \<open>s\<close> is not empty and the current id is defined and is the id of an entry.
  Deleting the current conversation makes the first of the remaining entries current;
  when none remains, the collection consists of one fresh conversation, which is current.
  After a confirmed \<open>clearConversations\<close> the collection consists of one fresh
  conversation, which is current.
\<close>

theorem session_never_empty:
  assumes "s = run (load_effect parseDate saved nid0 now0 initial_state) ops"
    and "known_selections (load_effect parseDate saved nid0 now0 initial_state) ops"
  shows "current_valid s
       \<and> (\<forall>i nid now.
            currentConversationId s = Some i \<longrightarrow>
            conversations (deleteConversation i nid now s)
              = (if filter (\<lambda>c. id_c c \<noteq> i) (conversations s) = []
                 then [newConversation nid now]
                 else filter (\<lambda>c. id_c c \<noteq> i) (conversations s))
            \<and> currentConversationId (deleteConversation i nid now s)
              = Some (if filter (\<lambda>c. id_c c \<noteq> i) (conversations s) = []
                      then nid
                      else id_c (hd (filter (\<lambda>c. id_c c \<noteq> i) (conversations s))))
            \<and> current_valid (deleteConversation i nid now s))
       \<and> (\<forall>nid now.
            conversations (clearConversations True nid now s) = [newConversation nid now]
            \<and> currentConversationId (clearConversations True nid now s) = Some nid)"
proof -
  have v: "current_valid s"
    unfolding assms(1) by (rule run_valid [OF load_valid assms(2)])
  then show ?thesis
    by (simp add: delete_current delete_valid clearConversations_def createNewConversation_def)
qed

theorem session_never_empty_witness:
  "known_selections (load_effect (\<lambda>text. 0) None (js ''c1'') 1000 initial_state)
     [AddMessage Deferred (js ''c1'') example_message 1500, Create (js ''c2'') 2000,
      Select (Some (js ''c1'')), Delete (js ''c1'') (js ''c3'') 3000]
   \<and> current_valid example_run
   \<and> currentConversationId example_run = Some (js ''c2'')
   \<and> conversations (deleteConversation (js ''c2'') (js ''c4'') 4000 example_run)
       = [newConversation (js ''c4'') 4000]
   \<and> currentConversationId (deleteConversation (js ''c2'') (js ''c4'') 4000 example_run)
       = Some (js ''c4'')
   \<and> conversations (clearConversations True (js ''c5'') 5000 example_run)
       = [newConversation (js ''c5'') 5000]"
proof -
  have k: "known_selections (load_effect (\<lambda>text. 0) None (js ''c1'') 1000 initial_state)
      [AddMessage Deferred (js ''c1'') example_message 1500, Create (js ''c2'') 2000,
       Select (Some (js ''c1'')), Delete (js ''c1'') (js ''c3'') 3000]"
    by (simp add: load_effect_def initial_state_def createNewConversation_def
        newConversation_def)
  have c: "currentConversationId example_run = Some (js ''c2'')"
    by (simp add: example_run_def load_effect_def initial_state_def createNewConversation_def
        newConversation_def setCurrentConversationId_def deleteConversation_def
        addMessageToConversation_def process_updates_def message_updater_def
        queued_title_updates_def title_updater_def example_message_def)
  have f: "filter (\<lambda>c. id_c c \<noteq> js ''c2'') (conversations example_run) = []"
    by (simp add: example_run_def load_effect_def initial_state_def createNewConversation_def
        newConversation_def setCurrentConversationId_def deleteConversation_def
        addMessageToConversation_def process_updates_def message_updater_def
        queued_title_updates_def title_updater_def example_message_def)
  from session_never_empty [OF example_run_def k] k c f show ?thesis
    by simp
qed

text \<open>
  C1 as stated fails: \<open>setCurrentConversationId\<close> accepts any id. After a start with an
  empty store, the selection of an id that no conversation has and the deletion of the only
  conversation, initialization has completed, the collection is empty and the current id
  refers to no entry.
\<close>

theorem session_never_empty_counterexample:
  "isInitialized stray_selection_run
   \<and> conversations stray_selection_run = []
   \<and> currentConversationId stray_selection_run = Some (js ''zz'')
   \<and> \<not> current_valid stray_selection_run"
  by (simp add: stray_selection_run_def load_effect_def initial_state_def
      createNewConversation_def newConversation_def setCurrentConversationId_def
      deleteConversation_def current_valid_def)


subsection \<open>The title derived from the first message\<close>

lemma eager_titles_unchanged:
  "map title (conversations (addMessageToConversation Eager i m now s))
     = map title (conversations s)"
  unfolding addMessageToConversation_def
  by (simp only: process_eager, simp add: message_updater_def comp_def if_distrib cong: if_cong)

text \<open>
  C2, evaluated where the code fails. A session holds one conversation, with the title
  \<open>First\<close> and no message, and the component has no update pending when the first user
  message, \<open>Explain quantum tunneling in under 30 chars!\<close>, is added. React runs the updater
  at the call: the title update it asks for is enqueued in front of the update of the
  message, whose state, computed from the current one, carries the old title and is the
  state in the end. The message is appended and the title is still \<open>First\<close>: the title
  that the code derives is lost. When the component has an update pending at the call,
  the title update is processed last and the title is the first 30 code units of the
  content followed by three full stops.
\<close>

theorem first_user_message_title_lost:
  "conversations (addMessageToConversation Eager (js ''c1'') example_message 9000 example_session)
     = [example_conversation\<lparr>messages := [example_message], lastUpdated := 9000\<rparr>]
   \<and> title (hd (conversations (addMessageToConversation Eager (js ''c1'') example_message 9000
                                example_session)))
       = js ''First''
   \<and> title (hd (conversations (addMessageToConversation Deferred (js ''c1'') example_message 9000
                                example_session)))
       = js ''Explain quantum tunneling in u...''"
  by (simp add: example_session_def example_conversation_def addMessageToConversation_def
      process_updates_def queued_title_updates_def message_updater_def
      title_updater_def derivedTitle_def slice0_def example_message_def long_question_def
      trim_def js_whitespace_def)

subsection \<open>Deleting an uploaded file from the knowledge base\<close>

text \<open>
  C5. Let \<open>f\<close> be the record that \<open>deleteFileFromKnowledgeBase i\<close> finds under the id \<open>i\<close>.
  If \<open>f\<close> has no \<open>documentId\<close>, the operation is \<open>deleteFile i\<close>: the records with the id
  \<open>i\<close> are removed and nothing is sent (the log is unchanged). If \<open>f\<close> has the \<open>documentId\<close>
  \<open>d\<close>, exactly one request is sent, the \<open>DELETE\<close> of \<open>DELETE_URL/d\<close>; the records with
  the id \<open>i\<close> are removed if the remote call reports success, and the collection is left
  as it was on a response that is not ok and on a failed request.
\<close>

theorem deleteFileFromKnowledgeBase_cases:
  assumes "find (\<lambda>x. id_u x = i) (uploadedFiles s) = Some f"
  shows "(\<not> truthy (documentId f) \<longrightarrow>
            deleteFileFromKnowledgeBase i outcome s = deleteFile i s
            \<and> log (deleteFileFromKnowledgeBase i outcome s) = log s
            \<and> uploadedFiles (deleteFileFromKnowledgeBase i outcome s)
                = filter (\<lambda>x. id_u x \<noteq> i) (uploadedFiles s))
       \<and> (\<forall>d. documentId f = Some d \<and> d \<noteq> [] \<longrightarrow>
            log (deleteFileFromKnowledgeBase i outcome s)
              = log s @ [Sent (DELETE (DELETE_URL @ js ''/'' @ d))]
            \<and> uploadedFiles (deleteFileFromKnowledgeBase i outcome s)
                = (if reports_success outcome
                   then filter (\<lambda>x. id_u x \<noteq> i) (uploadedFiles s)
                   else uploadedFiles s))"
  using assms
  by (auto simp: deleteFileFromKnowledgeBase_def deleteFile_def truthy_def reports_success_def
      Let_def split: option.splits fetch_result.splits)

theorem deleteFileFromKnowledgeBase_cases_witness:
  "find (\<lambda>x. id_u x = js ''u1'') (uploadedFiles two_uploads)
     = Some (failed_record example_file General rejected_env)
   \<and> \<not> truthy (documentId (failed_record example_file General rejected_env))
   \<and> deleteFileFromKnowledgeBase (js ''u1'') (Rejected OtherValue) two_uploads
       = deleteFile (js ''u1'') two_uploads
   \<and> log (deleteFileFromKnowledgeBase (js ''u1'') (Rejected OtherValue) two_uploads)
       = log two_uploads
   \<and> find (\<lambda>x. id_u x = js ''u2'') (uploadedFiles two_uploads)
       = Some (processing_record example_file General accepted_env (Some (js ''d7'')))
   \<and> documentId (processing_record example_file General accepted_env (Some (js ''d7'')))
       = Some (js ''d7'')
   \<and> js ''d7'' \<noteq> []
   \<and> log (deleteFileFromKnowledgeBase (js ''u2'') (Response False (Inr ())) two_uploads)
       = log two_uploads @ [Sent (DELETE (DELETE_URL @ js ''/'' @ js ''d7''))]
   \<and> uploadedFiles (deleteFileFromKnowledgeBase (js ''u2'') (Response False (Inr ())) two_uploads)
       = uploadedFiles two_uploads
   \<and> uploadedFiles (deleteFileFromKnowledgeBase (js ''u2'') (Response True (Inr ())) two_uploads)
       = filter (\<lambda>x. id_u x \<noteq> js ''u2'') (uploadedFiles two_uploads)"
proof -
  have fs: "uploadedFiles two_uploads
      = [failed_record example_file General rejected_env,
         processing_record example_file General accepted_env (Some (js ''d7''))]"
    by (simp add: two_uploads_def upload_one_files record_of_def rejected_env_def
        accepted_env_def no_uploads_def)
  have a: "find (\<lambda>x. id_u x = js ''u1'') (uploadedFiles two_uploads)
      = Some (failed_record example_file General rejected_env)"
    unfolding fs by (simp add: failed_record_def rejected_env_def)
  have b: "find (\<lambda>x. id_u x = js ''u2'') (uploadedFiles two_uploads)
      = Some (processing_record example_file General accepted_env (Some (js ''d7'')))"
    unfolding fs
    by (simp add: failed_record_def rejected_env_def processing_record_def accepted_env_def)
  have n: "\<not> truthy (documentId (failed_record example_file General rejected_env))"
    by (simp add: truthy_def failed_record_def)
  have d: "documentId (processing_record example_file General accepted_env (Some (js ''d7'')))
      = Some (js ''d7'')"
    by (simp add: processing_record_def)
  have e: "js ''d7'' \<noteq> []"
    by simp
  have r1: "reports_success (Response False (Inr ())) = False"
    by (simp add: reports_success_def)
  have r2: "reports_success (Response True (Inr ())) = True"
    by (simp add: reports_success_def)
  from deleteFileFromKnowledgeBase_cases [OF a, of "Rejected OtherValue"] n
  have 1: "deleteFileFromKnowledgeBase (js ''u1'') (Rejected OtherValue) two_uploads
             = deleteFile (js ''u1'') two_uploads
           \<and> log (deleteFileFromKnowledgeBase (js ''u1'') (Rejected OtherValue) two_uploads)
             = log two_uploads"
    by blast
  from deleteFileFromKnowledgeBase_cases [OF b, of "Response False (Inr ())"] d e
  have 2: "log (deleteFileFromKnowledgeBase (js ''u2'') (Response False (Inr ())) two_uploads)
             = log two_uploads @ [Sent (DELETE (DELETE_URL @ js ''/'' @ js ''d7''))]
           \<and> uploadedFiles (deleteFileFromKnowledgeBase (js ''u2'') (Response False (Inr ()))
                 two_uploads)
             = uploadedFiles two_uploads"
    unfolding r1 if_False by blast
  from deleteFileFromKnowledgeBase_cases [OF b, of "Response True (Inr ())"] d e
  have 3: "uploadedFiles (deleteFileFromKnowledgeBase (js ''u2'') (Response True (Inr ()))
                 two_uploads)
             = filter (\<lambda>x. id_u x \<noteq> js ''u2'') (uploadedFiles two_uploads)"
    unfolding r2 if_True by blast
  from a b n d e 1 2 3 show ?thesis
    by blast
qed


subsection \<open>An upload answered with the body null\<close>

lemma ok_branch_Data:
  "fetched env = Response True (Inr d) \<Longrightarrow>
   ok_branch file cat (uuidv4 env) (date_now env) (Data d)
       (s\<lparr>log := log s @ [Sent (POST UPLOAD_URL file cat)]\<rparr>)
     = (upload_one cat (file, env) s, None)"
  by (simp add: ok_branch_def processing_updater_def upload_one_def insert_record_def
      processing_record_def Let_def)

text \<open>
  C3, evaluated where the code fails. One file is uploaded, with nothing uploaded before,
  and the backend answers with an ok response whose body is \<open>null\<close>. The success branch
  hands its updater to \<open>setUploadedFiles\<close> and schedules the timer; when React runs the
  updater, the read of \<open>data.document_id\<close> throws, outside the \<open>try\<close> block. No record
  is inserted for the file, neither a processing nor a failed one: the collection is
  empty, the timer is pending for an id that no record has, and when it fires the
  collection is still empty. With a body that has the member, the same branch inserts
  the processing record and no render throws.
\<close>

theorem null_body_inserts_no_record:
  "ok_branch example_file General (js ''u3'') 4000 NullData no_uploads
     = (no_uploads\<lparr>timers := [\<lparr>delay = 3000, newFileId = js ''u3''\<rparr>]\<rparr>,
        Some null_member_error)
   \<and> uploadedFiles (fst (ok_branch example_file General (js ''u3'') 4000 NullData no_uploads))
       = []
   \<and> uploadedFiles
       (fire_timer 0 (fst (ok_branch example_file General (js ''u3'') 4000 NullData no_uploads)))
       = []
   \<and> ok_branch example_file General (js ''u3'') 4000 (Data (Some (js ''d7''))) no_uploads
       = (no_uploads
            \<lparr>uploadedFiles :=
               [\<lparr>id_u = js ''u3'', name_u = name_f example_file, size_u = size_f example_file,
                 uploadDate = 4000, success = True, category = General,
                 processingStatus = Processing, documentId = Some (js ''d7'')\<rparr>],
             timers := [\<lparr>delay = 3000, newFileId = js ''u3''\<rparr>],
             log := [Inserted (js ''u3'')]\<rparr>,
          None)"
  by (simp add: ok_branch_def processing_updater_def no_uploads_def fire_timer_def
      completion_callback_def)

subsection \<open>The calendar\<close>

lemma century:
  fixes doe :: int
  assumes "0 \<le> doe" "doe < 146097"
  defines "c \<equiv> min 3 (doe div 36524)"
  shows "0 \<le> c" "c \<le> 3" "0 \<le> doe - 36524 * c" "doe - 36524 * c \<le> 36524"
  using assms by (auto simp: min_def)

lemma year_in_century:
  fixes r1 :: int
  assumes "0 \<le> r1" "r1 \<le> 36524"
  shows "0 \<le> r1 div 1461" "r1 div 1461 \<le> 24"
  using assms by auto

lemma year_in_cycle:
  fixes r2 :: int
  assumes "0 \<le> r2" "r2 < 1461"
  defines "a \<equiv> min 3 (r2 div 365)"
  shows "0 \<le> a" "a \<le> 3" "0 \<le> r2 - 365 * a" "r2 - 365 * a \<le> 365"
  using assms by (auto simp: min_def)


lemma month_index:
  fixes doy :: int
  assumes "0 \<le> doy" "doy \<le> 365"
  shows "0 \<le> (5 * doy + 2) div 153" "(5 * doy + 2) div 153 \<le> 11"
  using assms by auto

lemma year_of_era:
  fixes c q a :: int
  assumes "0 \<le> c" "c \<le> 3" "0 \<le> q" "q \<le> 24" "0 \<le> a" "a \<le> 3"
  shows "(400 * era + (100 * c + 4 * q + a)) div 400 = era"
    and "(400 * era + (100 * c + 4 * q + a)) mod 400 = 100 * c + 4 * q + a"
    and "(100 * c + 4 * q + a) div 4 = 25 * c + q"
    and "(100 * c + 4 * q + a) div 100 = c"
proof -
  have r: "0 \<le> 100 * c + 4 * q + a" "100 * c + 4 * q + a < 400"
    using assms by linarith+
  show "(400 * era + (100 * c + 4 * q + a)) div 400 = era"
    using r by simp
  show "(400 * era + (100 * c + 4 * q + a)) mod 400 = 100 * c + 4 * q + a"
    using r by simp
  have "100 * c + 4 * q + a = 4 * (25 * c + q) + a" by simp
  then show "(100 * c + 4 * q + a) div 4 = 25 * c + q"
    using assms(5,6) by simp
  have "0 \<le> 4 * q + a" "4 * q + a < 100" using assms by linarith+
  moreover have "100 * c + 4 * q + a = 100 * c + (4 * q + a)" by simp
  ultimately show "(100 * c + 4 * q + a) div 100 = c"
    by simp
qed


lemma day_of_month:
  fixes doy :: int
  assumes "0 \<le> doy" "doy \<le> 365"
  shows "1 \<le> doy - (153 * ((5 * doy + 2) div 153) + 2) div 5 + 1"
    and "doy - (153 * ((5 * doy + 2) div 153) + 2) div 5 + 1 \<le> 31"
proof -
  define mp where "mp = (5 * doy + 2) div 153"
  have b: "153 * mp \<le> 5 * doy + 2" "5 * doy + 2 < 153 * mp + 153"
    unfolding mp_def by presburger+
  have "0 \<le> mp" "mp \<le> 11"
    using month_index [OF assms] by (simp_all add: mp_def)
  then have "mp \<in> {0, 1, 2, 3, 4, 5, 6, 7, 8, 9, 10, 11}"
    by simp presburger
  then have "1 \<le> doy - (153 * mp + 2) div 5 + 1 \<and> doy - (153 * mp + 2) div 5 + 1 \<le> 31"
    using b by (elim insertE emptyE) simp_all
  then show "1 \<le> doy - (153 * ((5 * doy + 2) div 153) + 2) div 5 + 1"
    and "doy - (153 * ((5 * doy + 2) div 153) + 2) div 5 + 1 \<le> 31"
    by (simp_all add: mp_def)
qed


lemma civil_of_days_unfold:
  assumes "civil_of_days z = (y, m, d)"
    and "era = (z + 719468) div 146097"
    and "doe = (z + 719468) mod 146097"
    and "c = min 3 (doe div 36524)"
    and "r1 = doe - 36524 * c"
    and "q = r1 div 1461"
    and "r2 = r1 mod 1461"
    and "a = min 3 (r2 div 365)"
    and "doy = r2 - 365 * a"
    and "yoe = 100 * c + 4 * q + a"
    and "mp = (5 * doy + 2) div 153"
  shows "m = (if mp < 10 then mp + 3 else mp - 9)"
    and "d = doy - (153 * mp + 2) div 5 + 1"
    and "y = 400 * era + yoe + (if m \<le> 2 then 1 else 0)"
proof -
  have "civil_of_days z =
      (400 * era + yoe + (if (if mp < 10 then mp + 3 else mp - 9) \<le> 2 then 1 else 0),
       if mp < 10 then mp + 3 else mp - 9, doy - (153 * mp + 2) div 5 + 1)"
    unfolding civil_of_days_def Let_def assms(2-) ..
  with assms(1) show "m = (if mp < 10 then mp + 3 else mp - 9)"
    and "d = doy - (153 * mp + 2) div 5 + 1"
    and "y = 400 * era + yoe + (if m \<le> 2 then 1 else 0)"
    by auto
qed


lemma civil_of_days_range:
  assumes "civil_of_days z = (y, m, d)"
  shows "1 \<le> m \<and> m \<le> 12 \<and> 1 \<le> d \<and> d \<le> 31"
proof -
  define doe where "doe = (z + 719468) mod 146097"
  define c where "c = min 3 (doe div 36524)"
  define r1 where "r1 = doe - 36524 * c"
  define r2 where "r2 = r1 mod 1461"
  define a where "a = min 3 (r2 div 365)"
  define doy where "doy = r2 - 365 * a"
  define mp where "mp = (5 * doy + 2) div 153"
  note u = civil_of_days_unfold [OF assms refl doe_def c_def r1_def refl r2_def a_def doy_def
      refl mp_def]
  have r2: "0 \<le> r2" "r2 < 1461" by (simp_all add: r2_def)
  have doy: "0 \<le> doy" "doy \<le> 365"
    using year_in_cycle [OF r2] by (simp_all add: doy_def a_def)
  have mp: "0 \<le> mp" "mp \<le> 11"
    using month_index [OF doy] by (simp_all add: mp_def)
  from day_of_month [OF doy] have "1 \<le> d" "d \<le> 31"
    unfolding u(2) mp_def by simp_all
  moreover from mp have "1 \<le> m" "m \<le> 12"
    unfolding u(1) by simp_all
  ultimately show ?thesis by simp
qed

lemma days_of_civil_of_days:
  assumes "civil_of_days z = (y, m, d)"
  shows "days_of_civil y m d = z"
proof -
  define era where "era = (z + 719468) div 146097"
  define doe where "doe = (z + 719468) mod 146097"
  define c where "c = min 3 (doe div 36524)"
  define r1 where "r1 = doe - 36524 * c"
  define q where "q = r1 div 1461"
  define r2 where "r2 = r1 mod 1461"
  define a where "a = min 3 (r2 div 365)"
  define doy where "doy = r2 - 365 * a"
  define yoe where "yoe = 100 * c + 4 * q + a"
  define mp where "mp = (5 * doy + 2) div 153"
  note u = civil_of_days_unfold [OF assms era_def doe_def c_def r1_def q_def r2_def a_def
      doy_def yoe_def mp_def]
  have z: "z = era * 146097 + doe - 719468"
    by (simp add: era_def doe_def)
  have doe: "0 \<le> doe" "doe < 146097" by (simp_all add: doe_def)
  have c: "0 \<le> c" "c \<le> 3" and r1: "0 \<le> r1" "r1 \<le> 36524"
    using century [OF doe] by (simp_all add: c_def r1_def)
  have q: "0 \<le> q" "q \<le> 24"
    using year_in_century [OF r1] by (simp_all add: q_def)
  have r2: "0 \<le> r2" "r2 < 1461" by (simp_all add: r2_def)
  have r1_eq: "r1 = 1461 * q + r2" by (simp add: q_def r2_def)
  have a: "0 \<le> a" "a \<le> 3" and doy: "0 \<le> doy" "doy \<le> 365"
    using year_in_cycle [OF r2] by (simp_all add: doy_def a_def)
  have mp: "0 \<le> mp" "mp \<le> 11"
    using month_index [OF doy] by (simp_all add: mp_def)
  have y1: "(if m \<le> 2 then y - 1 else y) = 400 * era + yoe"
    by (simp add: u(3))
  have mp': "(if m > 2 then m - 3 else m + 9) = mp"
    using mp by (simp add: u(1))
  have e: "(400 * era + yoe) div 400 = era" "(400 * era + yoe) mod 400 = yoe"
    "yoe div 4 = 25 * c + q" "yoe div 100 = c"
    unfolding yoe_def using year_of_era [OF c q a] by simp_all
  have "days_of_civil y m d
      = era * 146097 + (yoe * 365 + (25 * c + q) - c + ((153 * mp + 2) div 5 + d - 1)) - 719468"
    unfolding days_of_civil_def Let_def y1 mp' e by simp
  also have "\<dots> = era * 146097 + doe - 719468"
    unfolding u(2) yoe_def doy_def using r1_eq unfolding r1_def by simp
  finally show ?thesis using z by simp
qed

subsection \<open>Reading back the ISO text\<close>

lemma length_pad [simp]: "length (pad k n) = k"
  by (induction k arbitrary: n) simp_all

lemma unat_digit_char: "n < 10 \<Longrightarrow> unat (digit_char n) = 48 + n"
  unfolding digit_char_def by (rule of_nat_inverse [OF refl]) simp

lemma digit_value_char: "n < 10 \<Longrightarrow> digit_value (digit_char n) = n"
  by (simp add: digit_value_def unat_digit_char)

lemma digits_value_snoc: "digits_value (xs @ [c]) = 10 * digits_value xs + digit_value c"
  by (simp add: digits_value_def)

lemma digits_value_pad: "digits_value (pad k n) = n mod 10 ^ k"
proof (induction k arbitrary: n)
  case 0
  show ?case by (simp add: digits_value_def)
next
  case (Suc k)
  have "n mod (10 * 10 ^ k) = 10 * (n div 10 mod 10 ^ k) + n mod 10"
    by (rule mod_mult2_eq)
  then show ?case
    by (simp add: digits_value_snoc Suc digit_value_char)
qed

lemma digits_value_pad_small: "n < 10 ^ k \<Longrightarrow> digits_value (pad k n) = n"
  by (simp add: digits_value_pad)

lemma pad_2: "pad 2 n = [digit_char (n div 10 mod 10), digit_char (n mod 10)]"
  by (simp add: numeral_2_eq_2)

lemma pad_3:
  "pad 3 n = [digit_char (n div 10 div 10 mod 10), digit_char (n div 10 mod 10),
              digit_char (n mod 10)]"
  by (simp add: numeral_3_eq_3)

lemma pad_Suc_hd: "pad (Suc k) n \<noteq> [] \<and> (\<exists>d < 10. hd (pad (Suc k) n) = digit_char d)"
proof (induction k arbitrary: n)
  case 0
  have "n mod 10 < 10" by simp
  then show ?case by (auto intro!: exI [of _ "n mod 10"])
next
  case (Suc k)
  from Suc [of "n div 10"] show ?case
    by (auto simp: hd_append)
qed

lemma digit_char_not_sign: "d < 10 \<Longrightarrow> digit_char d \<noteq> 0x2B \<and> digit_char d \<noteq> 0x2D"
proof -
  assume "d < 10"
  then have "unat (digit_char d) = 48 + d"
    by (rule unat_digit_char)
  then show ?thesis by auto
qed

lemma less_power_ten: "(n::nat) < 10 ^ n"
proof -
  have "n < 2 ^ n" by (rule less_exp)
  also have "(2::nat) ^ n \<le> 10 ^ n" by (rule power_mono) simp_all
  finally show ?thesis .
qed

lemma year_text_plain:
  assumes "0 \<le> y" "y \<le> 9999"
  shows "year_value (pad 4 (nat y)) = y"
proof -
  have s: "(4::nat) = Suc 3" by simp
  obtain d where d: "d < 10" "hd (pad 4 (nat y)) = digit_char d" and ne: "pad 4 (nat y) \<noteq> []"
    using pad_Suc_hd [of 3 "nat y"] unfolding s by blast
  from ne obtain c ds where p: "pad 4 (nat y) = c # ds"
    by (cases "pad 4 (nat y)") simp_all
  with d have c: "c \<noteq> 0x2B" "c \<noteq> 0x2D"
    using digit_char_not_sign [of d] by simp_all
  have "nat y < 10 ^ 4" using assms by simp
  then have v: "digits_value (pad 4 (nat y)) = nat y"
    by (rule digits_value_pad_small)
  have "year_value (c # ds) = int (digits_value (c # ds))"
    using c by (simp add: year_value_def)
  then show ?thesis
    unfolding p [symmetric] v using assms(1) by simp
qed


lemma year_width: "nat \<bar>y\<bar> < 10 ^ (if \<bar>y\<bar> < 1000000 then 6 else nat \<bar>y\<bar>)"
proof (cases "\<bar>y\<bar> < 1000000")
  case True
  then have "nat \<bar>y\<bar> < 1000000" by simp
  also have "(1000000::nat) = 10 ^ 6" by simp
  finally show ?thesis using True by (simp only: if_True)
next
  case False
  then show ?thesis by (simp only: if_False less_power_ten)
qed

lemma year_text_signed:
  assumes "\<not> (0 \<le> y \<and> y \<le> 9999)"
  shows "year_value ((if y < 0 then js ''-'' else js ''+'')
            @ pad (if \<bar>y\<bar> < 1000000 then 6 else nat \<bar>y\<bar>) (nat \<bar>y\<bar>)) = y"
proof -
  define ds where "ds = pad (if \<bar>y\<bar> < 1000000 then 6 else nat \<bar>y\<bar>) (nat \<bar>y\<bar>)"
  have v: "digits_value ds = nat \<bar>y\<bar>"
    unfolding ds_def by (rule digits_value_pad_small) (rule year_width)
  show ?thesis
  proof (cases "y < 0")
    case True
    have "year_value (0x2D # ds) = - int (digits_value ds)"
      by (simp add: year_value_def)
    with True show ?thesis
      unfolding ds_def [symmetric] by (simp add: v)
  next
    case False
    have "year_value (0x2B # ds) = int (digits_value ds)"
      by (simp add: year_value_def)
    with False show ?thesis
      unfolding ds_def [symmetric] by (simp add: v)
  qed
qed

lemma year_value_text: "year_value (year_text y) = y"
proof (cases "0 \<le> y \<and> y \<le> 9999")
  case True
  then have a: "0 \<le> y" "y \<le> 9999" by simp_all
  have "year_text y = pad 4 (nat y)"
    unfolding year_text_def by (rule if_P) (rule True)
  then show ?thesis
    using year_text_plain [OF a] by (simp only:)
next
  case False
  have "year_text y = (if y < 0 then js ''-'' else js ''+'')
      @ pad (if \<bar>y\<bar> < 1000000 then 6 else nat \<bar>y\<bar>) (nat \<bar>y\<bar>)"
    unfolding year_text_def by (rule if_not_P) (rule False)
  then show ?thesis
    using year_text_signed [OF False] by (simp only:)
qed

lemma iso_fields:
  fixes a b c e f g :: nat
  defines "R \<equiv> js ''-'' @ pad 2 a @ js ''-'' @ pad 2 b @ js ''T'' @ pad 2 c
      @ js '':'' @ pad 2 e @ js '':'' @ pad 2 f @ js ''.'' @ pad 3 g @ js ''Z''"
  shows "length R = 20"
    and "take 2 (drop 1 R) = pad 2 a"
    and "take 2 (drop 4 R) = pad 2 b"
    and "take 2 (drop 7 R) = pad 2 c"
    and "take 2 (drop 10 R) = pad 2 e"
    and "take 2 (drop 13 R) = pad 2 f"
    and "take 3 (drop 16 R) = pad 3 g"
  unfolding R_def by (simp_all add: pad_2 pad_3)

lemma time_of_day:
  fixes n :: nat
  shows "n div 3600000 * 3600000 + n div 60000 mod 60 * 60000 + n div 1000 mod 60 * 1000
           + n mod 1000 = n"
proof -
  have a: "n div 60000 = n div 1000 div 60" "n div 3600000 = n div 60000 div 60"
    by (simp_all add: div_mult2_eq)
  have "n = n div 1000 * 1000 + n mod 1000" by simp
  moreover have "n div 1000 = n div 60000 * 60 + n div 1000 mod 60"
    unfolding a(1) by simp
  moreover have "n div 60000 = n div 3600000 * 60 + n div 60000 mod 60"
    unfolding a(2) by simp
  ultimately show ?thesis by linarith
qed

lemma field_bounds:
  fixes n :: nat
  assumes "n < 86400000"
  shows "n div 3600000 < 10 ^ 2" "n div 60000 mod 60 < 10 ^ 2" "n div 1000 mod 60 < 10 ^ 2"
    "n mod 1000 < 10 ^ 3"
proof -
  have "n div 3600000 < 24" using assms by (simp add: less_mult_imp_div_less)
  then show "n div 3600000 < 10 ^ 2" by simp
  have "n div 60000 mod 60 < 60" by simp
  then show "n div 60000 mod 60 < 10 ^ 2" by simp
  have "n div 1000 mod 60 < 60" by simp
  then show "n div 1000 mod 60 < 10 ^ 2" by simp
  show "n mod 1000 < 10 ^ 3" by simp
qed

lemma Date_parse_toISOString: "Date_parse (Date_toISOString t) = t"
proof -
  define day where "day = t div 86400000"
  define n where "n = nat (t mod 86400000)"
  obtain y m d where ymd: "civil_of_days day = (y, m, d)"
    by (cases "civil_of_days day") auto
  define R where "R = js ''-'' @ pad 2 (nat m) @ js ''-'' @ pad 2 (nat d)
      @ js ''T'' @ pad 2 (n div 3600000) @ js '':'' @ pad 2 (n div 60000 mod 60)
      @ js '':'' @ pad 2 (n div 1000 mod 60) @ js ''.'' @ pad 3 (n mod 1000) @ js ''Z''"
  have iso: "Date_toISOString t = year_text y @ R"
    by (simp add: Date_toISOString_def Let_def day_def [symmetric] n_def [symmetric] ymd R_def)
  note f = iso_fields [of "nat m" "nat d" "n div 3600000" "n div 60000 mod 60"
      "n div 1000 mod 60" "n mod 1000", folded R_def]
  have tk: "take (length (year_text y @ R) - 20) (year_text y @ R) = year_text y"
    and dr: "drop (length (year_text y @ R) - 20) (year_text y @ R) = R"
    by (simp_all add: f(1))
  have rng: "1 \<le> m" "m \<le> 12" "1 \<le> d" "d \<le> 31"
    using civil_of_days_range [OF ymd] by simp_all
  have n: "n < 86400000" "int n = t mod 86400000"
    by (simp_all add: n_def)
  have vm: "int (digits_value (pad 2 (nat m))) = m"
    using rng by (subst digits_value_pad_small) simp_all
  have vd: "int (digits_value (pad 2 (nat d))) = d"
    using rng by (subst digits_value_pad_small) simp_all
  note b = field_bounds [OF n(1)]
  have "Date_parse (Date_toISOString t)
      = days_of_civil y m d * 86400000
        + int (n div 3600000) * 3600000 + int (n div 60000 mod 60) * 60000
        + int (n div 1000 mod 60) * 1000 + int (n mod 1000)"
    unfolding iso Date_parse_def Let_def tk dr f(2-) year_value_text vm vd
    by (simp only: digits_value_pad_small [OF b(1)] digits_value_pad_small [OF b(2)]
        digits_value_pad_small [OF b(3)] digits_value_pad_small [OF b(4)])
  also have "\<dots> = day * 86400000 + int (n div 3600000 * 3600000 + n div 60000 mod 60 * 60000
        + n div 1000 mod 60 * 1000 + n mod 1000)"
    by (simp add: days_of_civil_of_days [OF ymd])
  also have "\<dots> = day * 86400000 + t mod 86400000"
    unfolding time_of_day n(2) ..
  also have "\<dots> = t"
    by (simp add: day_def)
  finally show ?thesis .
qed

subsection \<open>Persisting and reloading the conversations\<close>

lemma parsed_stringify_message:
  "parsed_message (stringify_message Date_toISOString m) = reloaded_message m"
  by (simp add: parsed_message_def stringify_message_def reloaded_message_def)

lemma revive_stringify:
  "revive_conversation Date_parse (stringify_conversation Date_toISOString conv)
     = conv\<lparr>messages := map reloaded_message (messages conv)\<rparr>"
  by (simp add: revive_conversation_def stringify_conversation_def parsed_stringify_message
      Date_parse_toISOString comp_def)

lemma reloaded_message_meaning: "message_meaning (reloaded_message m) = message_meaning m"
  by (cases "timestamp m")
    (simp_all add: message_meaning_def reloaded_message_def timestamp_instant_def
      timestamp_text_def Date_parse_toISOString)

lemma persist_reload_conversations:
  assumes "conversations s \<noteq> []" and "isInitialized s"
  shows "conversations (persist_reload s store nid now)
           = map (\<lambda>conv. conv\<lparr>messages := map reloaded_message (messages conv)\<rparr>)
               (conversations s)"
  using assms
  by (simp add: persist_reload_def load_effect_def save_effect_def initial_state_def
      revive_stringify comp_def)

text \<open>
  C8, as the code has it. Let the collection of an initialized session be not empty. When
  the save effect has written the snapshot and the load effect of a new session reads it,
  the collection of the new session has the conversations of the original one, in order,
  with the same ids, titles, \<open>lastUpdated\<close> instants and meta information; each
  conversation has the messages of the original one, in order, with the same role,
  content, sources and expanded queries, and with a timestamp that denotes the same
  instant, but is now the ISO text, also where it was a \<open>Date\<close>. The current conversation
  of the new session is the first entry, and the session is initialized.
\<close>

theorem persist_reload_roundtrip:
  assumes "conversations s \<noteq> []"
    and "isInitialized s"
  shows "conversations (persist_reload s store nid now)
           = map (\<lambda>conv. conv\<lparr>messages := map reloaded_message (messages conv)\<rparr>)
               (conversations s)
       \<and> map id_c (conversations (persist_reload s store nid now))
           = map id_c (conversations s)
       \<and> map title (conversations (persist_reload s store nid now))
           = map title (conversations s)
       \<and> map lastUpdated (conversations (persist_reload s store nid now))
           = map lastUpdated (conversations s)
       \<and> map metaInformation (conversations (persist_reload s store nid now))
           = map metaInformation (conversations s)
       \<and> map (\<lambda>conv. map message_meaning (messages conv))
             (conversations (persist_reload s store nid now))
           = map (\<lambda>conv. map message_meaning (messages conv)) (conversations s)
       \<and> currentConversationId (persist_reload s store nid now)
           = Some (id_c (hd (conversations s)))
       \<and> isInitialized (persist_reload s store nid now)"
proof -
  note c = persist_reload_conversations [OF assms, of store nid now]
  have h: "s_id (hd (map (stringify_conversation Date_toISOString) (conversations s)))
             = id_c (hd (conversations s))"
    using assms(1) by (simp add: hd_map stringify_conversation_def)
  have 1: "currentConversationId (persist_reload s store nid now)
             = Some (id_c (hd (conversations s)))"
    using assms h
    by (simp add: persist_reload_def load_effect_def save_effect_def initial_state_def)
  have 2: "isInitialized (persist_reload s store nid now)"
    using assms
    by (simp add: persist_reload_def load_effect_def save_effect_def initial_state_def)
  have 3: "map (\<lambda>conv. map message_meaning (messages conv))
             (conversations (persist_reload s store nid now))
           = map (\<lambda>conv. map message_meaning (messages conv)) (conversations s)"
    unfolding c by (simp add: comp_def reloaded_message_meaning)
  have 4: "map id_c (conversations (persist_reload s store nid now))
             = map id_c (conversations s)"
    unfolding c by (simp add: comp_def)
  have 5: "map title (conversations (persist_reload s store nid now))
             = map title (conversations s)"
    unfolding c by (simp add: comp_def)
  have 6: "map lastUpdated (conversations (persist_reload s store nid now))
             = map lastUpdated (conversations s)"
    unfolding c by (simp add: comp_def)
  have 7: "map metaInformation (conversations (persist_reload s store nid now))
             = map metaInformation (conversations s)"
    unfolding c by (simp add: comp_def)
  from c 1 2 3 4 5 6 7 show ?thesis
    by blast
qed

theorem persist_reload_roundtrip_witness:
  "conversations message_session \<noteq> []
   \<and> isInitialized message_session
   \<and> conversations (persist_reload message_session None (js ''c7'') 7000)
       = map (\<lambda>conv. conv\<lparr>messages := map reloaded_message (messages conv)\<rparr>)
           (conversations message_session)
   \<and> map lastUpdated (conversations (persist_reload message_session None (js ''c7'') 7000))
       = map lastUpdated (conversations message_session)
   \<and> map (\<lambda>conv. map message_meaning (messages conv))
         (conversations (persist_reload message_session None (js ''c7'') 7000))
       = map (\<lambda>conv. map message_meaning (messages conv)) (conversations message_session)
   \<and> currentConversationId (persist_reload message_session None (js ''c7'') 7000)
       = Some (id_c (hd (conversations message_session)))"
proof -
  have a: "conversations message_session \<noteq> []"
    by (simp add: message_session_def)
  have b: "isInitialized message_session"
    by (simp add: message_session_def)
  from a b persist_reload_roundtrip [OF a b, of None "js ''c7''" 7000]
  show ?thesis
    by blast
qed

lemma pad_4:
  "pad 4 n = [digit_char (n div 10 div 10 div 10 mod 10), digit_char (n div 10 div 10 mod 10),
              digit_char (n div 10 mod 10), digit_char (n mod 10)]"
proof -
  have "pad 4 n = pad (Suc 3) n" by simp
  then show ?thesis by (simp only: pad.simps pad_3) simp
qed

lemma example_day: "civil_of_days 19844 = (2024, 5, 1)"
proof -
  obtain y m d where e: "civil_of_days 19844 = (y, m, d)"
    by (cases "civil_of_days 19844")
  note u = civil_of_days_unfold [OF e, of 5 8827 0 8827 6 61 0 61 24 2]
  have "m = (if (2::int) < 10 then 2 + 3 else 2 - 9)"
    by (rule u(1)) simp_all
  then have m: "m = 5" by simp
  have "d = 61 - (153 * 2 + 2) div 5 + 1"
    by (rule u(2)) simp_all
  then have d: "d = 1" by simp
  have "y = 400 * 5 + 24 + (if m \<le> 2 then 1 else 0)"
    by (rule u(3)) simp_all
  then have y: "y = 2024" unfolding m by simp
  show ?thesis unfolding e m d y ..
qed

lemma example_instant_text:
  "Date_toISOString 1714557600000 = js ''2024-05-01T10:00:00.000Z''"
proof -
  have d: "(1714557600000::int) div 86400000 = 19844" by simp
  have n: "nat ((1714557600000::int) mod 86400000) = 36000000" by simp
  have y: "year_text 2024 = pad 4 2024" by (simp add: year_text_def)
  show ?thesis
    unfolding Date_toISOString_def Let_def d n example_day fst_conv snd_conv y
    by (simp add: pad_4 pad_2 pad_3 digit_char_def)
qed

text \<open>
  C8 as stated fails in two ways. For the empty collection: the session reached by
  selecting an id that no conversation has and deleting the only conversation is
  initialized and holds no conversation; the save effect writes the empty array; on
  reload the load effect does not adopt it but synthesizes a conversation, so the
  reloaded collection has one entry and is not the original one. For a message whose
  timestamp is a \<open>Date\<close>: the load effect revives \<open>lastUpdated\<close> only, so the first
  message of the reloaded conversation holds the text \<open>2024-05-01T10:00:00.000Z\<close> where
  the original holds the instant, and the reloaded collection is not the original one.
\<close>

theorem persist_reload_counterexample:
  "isInitialized stray_selection_run
   \<and> conversations stray_selection_run = []
   \<and> save_effect Date_toISOString stray_selection_run None = Some []
   \<and> conversations (persist_reload stray_selection_run None (js ''c7'') 7000)
       = [newConversation (js ''c7'') 7000]
   \<and> conversations (persist_reload stray_selection_run None (js ''c7'') 7000)
       \<noteq> conversations stray_selection_run
   \<and> timestamp (hd (messages (hd (conversations message_session))))
       = DateValue 1714557600000
   \<and> timestamp (hd (messages (hd (conversations
         (persist_reload message_session None (js ''c7'') 7000)))))
       = TextValue (js ''2024-05-01T10:00:00.000Z'')
   \<and> conversations (persist_reload message_session None (js ''c7'') 7000)
       \<noteq> conversations message_session"
proof -
  have 1: "isInitialized stray_selection_run \<and> conversations stray_selection_run = []"
    by (simp add: stray_selection_run_def load_effect_def initial_state_def
        createNewConversation_def newConversation_def setCurrentConversationId_def
        deleteConversation_def)
  have 2: "save_effect Date_toISOString stray_selection_run None = Some []"
    using 1 by (simp add: save_effect_def)
  have 3: "conversations (persist_reload stray_selection_run None (js ''c7'') 7000)
             = [newConversation (js ''c7'') 7000]"
    unfolding persist_reload_def 2
    by (simp add: load_effect_def initial_state_def createNewConversation_def)
  have 4: "timestamp (hd (messages (hd (conversations message_session))))
             = DateValue 1714557600000"
    by (simp add: message_session_def example_message_def)
  have m: "conversations message_session \<noteq> []" "isInitialized message_session"
    by (simp_all add: message_session_def)
  have 5: "timestamp (hd (messages (hd (conversations
             (persist_reload message_session None (js ''c7'') 7000)))))
           = TextValue (Date_toISOString 1714557600000)"
    unfolding persist_reload_conversations [OF m]
    by (simp add: message_session_def example_message_def reloaded_message_def
        timestamp_text_def)
  have 6: "conversations (persist_reload message_session None (js ''c7'') 7000)
             \<noteq> conversations message_session"
    using 4 5 by auto
  from 1 2 3 4 5 6 show ?thesis
    unfolding example_instant_text by simp
qed


end
